theory Spec2Isabelle
  imports Main
begin

section \<open>The error model (rest.go, lines 219-230)\<close>

text \<open>
  \<^verbatim>\<open>StatusError\<close> is the struct of rest.go with its two fields. A Go \<^verbatim>\<open>error\<close> value is
  either of dynamic type \<^verbatim>\<open>StatusError\<close> or of some other error type, of which the program
  only ever reads the text returned by \<^verbatim>\<open>Error()\<close>. The nil error is \<open>None\<close> of
  \<open>goerror option\<close>.
\<close>

record StatusError =
  Err :: string
  StatusCode :: int

datatype goerror = Status StatusError | Plain string

fun Error :: "goerror \<Rightarrow> string" where
  "Error (Status h) = Err h"
| "Error (Plain m) = m"

definition NewStatusError :: "string \<Rightarrow> int \<Rightarrow> goerror" where
  "NewStatusError err statusCode = Status \<lparr>Err = err, StatusCode = statusCode\<rparr>"

definition StatusBadRequest :: int where
  "StatusBadRequest = 400"

text \<open>
  The type assertion \<^verbatim>\<open>err.(StatusError)\<close>: the struct and \<open>True\<close> when the dynamic type is
  \<^verbatim>\<open>StatusError\<close>, nothing otherwise.
\<close>

fun asStatusError :: "goerror \<Rightarrow> StatusError option" where
  "asStatusError (Status h) = Some h"
| "asStatusError (Plain m) = None"

section \<open>JSON of the error envelope\<close>

text \<open>
  The JSON codec is a library. What rest.go fixes is the shape that \<^verbatim>\<open>StatusError\<close> is
  encoded to, through its struct tags \<^verbatim>\<open>json:"message"\<close> and \<^verbatim>\<open>json:"statusCode"\<close>: an
  object of two members in field order. The text that the encoder writes for a JSON value
  is a parameter (\<open>jsonText\<close> below).
\<close>

datatype json = JString string | JNumber int | JObject "(string \<times> json) list"

definition StatusError_json :: "StatusError \<Rightarrow> json" where
  "StatusError_json h =
     JObject [(''message'', JString (Err h)), (''statusCode'', JNumber (StatusCode h))]"

section \<open>Requests, contexts and the calls a request makes\<close>

text \<open>
  Of \<^verbatim>\<open>*http.Request\<close> the program reads the method, the request URI and the header;
  \<^verbatim>\<open>ParseForm\<close> fills the form. \<^verbatim>\<open>Header.Get\<close> returns the first value stored under a
  key, the empty string when there is none.
\<close>

record request =
  Method :: string
  RequestURI :: string
  Header :: "string \<rightharpoonup> string list"
  Form :: "(string \<times> string list) list"

definition HeaderGet :: "(string \<rightharpoonup> string list) \<Rightarrow> string \<Rightarrow> string" where
  "HeaderGet h k = (case h k of None \<Rightarrow> [] | Some [] \<Rightarrow> [] | Some (v # _) \<Rightarrow> v)"

record params =
  Request :: request
  PathVar :: "(string \<times> string) list"

datatype verb = GET | POST | PUT | DELETE

text \<open>
  A request's effects are recorded as the sequence of calls it makes: on the
  \<^verbatim>\<open>http.ResponseWriter\<close> (\<open>HeaderSet\<close>, \<open>WriteHeader\<close>, \<open>Write\<close>; the program never reads
  from the writer), into the middleware (\<open>Middleware i ctx\<close>: the function at index \<open>i\<close>
  of the chain is called with context \<open>ctx\<close>) and into the handler instance
  (\<open>Verb v ctx\<close>: the method of verb \<open>v\<close> is called with context \<open>ctx\<close>).
\<close>

datatype 'c event =
    HeaderSet string string
  | WriteHeader int
  | Write string
  | Middleware nat 'c
  | Verb verb 'c

text \<open>
  The response as \<^verbatim>\<open>net/http\<close> builds it from the calls: \<open>header\<close> is the header map,
  \<open>sent\<close> the status line and the headers as they went out (the first \<^verbatim>\<open>WriteHeader\<close>
  fixes them, a \<^verbatim>\<open>Write\<close> before any \<^verbatim>\<open>WriteHeader\<close> sends status 200), \<open>body\<close> the bytes
  written. Writes are taken to succeed.
\<close>

record response =
  header :: "string \<rightharpoonup> string"
  sent :: "(int \<times> (string \<rightharpoonup> string)) option"
  body :: string

definition send :: "int \<Rightarrow> response \<Rightarrow> response" where
  "send code w = (case sent w of None \<Rightarrow> w\<lparr>sent := Some (code, header w)\<rparr> | Some _ \<Rightarrow> w)"

fun apply_event :: "response \<Rightarrow> 'c event \<Rightarrow> response" where
  "apply_event w (HeaderSet k v) = w\<lparr>header := (header w)(k \<mapsto> v)\<rparr>"
| "apply_event w (WriteHeader code) = send code w"
| "apply_event w (Write b) = (let w' = send 200 w in w'\<lparr>body := body w' @ b\<rparr>)"
| "apply_event w (Middleware i c) = w"
| "apply_event w (Verb v c) = w"

definition replay :: "'c event list \<Rightarrow> response \<Rightarrow> response" where
  "replay evs w = foldl apply_event w evs"

definition fresh :: response where
  "fresh = \<lparr>header = Map.empty, sent = None, body = []\<rparr>"

section \<open>The external collaborators\<close>

text \<open>
  A handler method returns \<^verbatim>\<open>(interface{}, error)\<close>. Of the result the program asks
  whether its dynamic type is \<^verbatim>\<open>[]byte\<close>, \<^verbatim>\<open>string\<close> or anything else (\<open>ROther\<close>); \<open>RNil\<close>
  is the nil interface.
\<close>

datatype 'r reply = RNil | RBytes string | RString string | ROther 'r

text \<open>
  What a handler instance holds, as far as \<^verbatim>\<open>reflect\<close> looks at it: a struct, a slice of
  elements, or a value of another kind. \<open>'e rtype\<close> is the \<^verbatim>\<open>reflect.Type\<close>, carrying the
  zero value of the type.
\<close>

datatype 'e obj = Struct 'e | Slice "'e obj list" | Scalar 'e

datatype kind = KStruct | KSlice | KOther

datatype 'e rtype = TStruct 'e | TSlice "'e rtype" | TOther 'e

fun Kind :: "'e rtype \<Rightarrow> kind" where
  "Kind (TStruct z) = KStruct"
| "Kind (TSlice t) = KSlice"
| "Kind (TOther z) = KOther"

fun Zero :: "'e rtype \<Rightarrow> 'e obj" where
  "Zero (TStruct z) = Struct z"
| "Zero (TSlice t) = Slice []"
| "Zero (TOther z) = Scalar z"

text \<open>\<^verbatim>\<open>reflect.MakeSlice(typ, n, n)\<close>, given the element type of \<^verbatim>\<open>typ\<close>.\<close>

definition MakeSlice :: "'e rtype \<Rightarrow> nat \<Rightarrow> 'e obj" where
  "MakeSlice et n = Slice (replicate n (Zero et))"

text \<open>
  The memory that pointers to handler instances point into: \<open>cell\<close> at an address below
  \<open>nextAddr\<close> is an allocated variable. \<^verbatim>\<open>reflect.New\<close> allocates a zeroed variable.
  What a variable holds is a value without pointers of its own: copying a variable
  copies all of it.
\<close>

record 'e heap =
  cell :: "nat \<Rightarrow> 'e obj"
  nextAddr :: nat

definition store :: "'e heap \<Rightarrow> nat \<Rightarrow> 'e obj \<Rightarrow> 'e heap" where
  "store hp a x = hp\<lparr>cell := (cell hp)(a := x)\<rparr>"

definition reflect_New :: "'e rtype \<Rightarrow> 'e heap \<Rightarrow> nat \<times> 'e heap" where
  "reflect_New t hp =
     (nextAddr hp, hp\<lparr>cell := (cell hp)(nextAddr hp := Zero t), nextAddr := Suc (nextAddr hp)\<rparr>)"

text \<open>
  The libraries the program calls, as parameters: \<^verbatim>\<open>context.Background()\<close>,
  \<^verbatim>\<open>appengine.IsDevAppServer()\<close>, \<^verbatim>\<open>r.ParseForm()\<close> (the form it leaves in the request),
  \<^verbatim>\<open>httprequest.Unmarshal\<close> (from the request parameters and the variable the target points
  to, to what it leaves in that variable and its error; it writes nowhere else), the
  JSON encoder (the text written for a JSON value; for a handler result, the text or
  the error), the type assertion to \<^verbatim>\<open>proto.Message\<close> and \<^verbatim>\<open>proto.Marshal\<close>.
\<close>

record ('c, 'e, 'r) env =
  Background :: 'c
  IsDevAppServer :: bool
  ParseForm :: "request \<Rightarrow> (string \<times> string list) list"
  Unmarshal :: "params \<Rightarrow> 'e obj \<Rightarrow> 'e obj \<times> goerror option"
  jsonText :: "json \<Rightarrow> string"
  jsonEncode :: "'r reply \<Rightarrow> goerror + string"
  protoMessage :: "'r \<Rightarrow> bool"
  protoMarshal :: "'r \<Rightarrow> goerror + string"

text \<open>\<^verbatim>\<open>v.(proto.Message)\<close> on a handler result; the nil interface has no dynamic type.\<close>

fun asProtoMessage :: "('c, 'e, 'r) env \<Rightarrow> 'r reply \<Rightarrow> 'r option" where
  "asProtoMessage env (ROther x) = (if protoMessage env x then Some x else None)"
| "asProtoMessage env v = None"

section \<open>strings.ToLower and strings.Contains\<close>

text \<open>
  On bytes: the letters A to Z are lowered, every other byte is kept, which is what
  \<^verbatim>\<open>strings.ToLower\<close> returns for a string of ASCII characters, as header values are.
  \<open>Contains s sub\<close> looks for \<open>sub\<close> as a contiguous part of \<open>s\<close>.
\<close>

definition toLowerChar :: "char \<Rightarrow> char" where
  "toLowerChar c =
     (let n = (of_char c :: nat) in if 65 \<le> n \<and> n \<le> 90 then char_of (n + 32) else c)"

definition ToLower :: "string \<Rightarrow> string" where
  "ToLower s = map toLowerChar s"

fun HasPrefix :: "string \<Rightarrow> string \<Rightarrow> bool" where
  "HasPrefix s [] = True"
| "HasPrefix [] (p # ps) = False"
| "HasPrefix (c # s) (p # ps) = (c = p \<and> HasPrefix s ps)"

fun Contains :: "string \<Rightarrow> string \<Rightarrow> bool" where
  "Contains [] sub = (sub = [])"
| "Contains (c # s) sub = (HasPrefix (c # s) sub \<or> Contains s sub)"

section \<open>Slices of middleware\<close>

text \<open>
  A Go slice is a window on a backing array: the array, the offset of the window, its
  length and its capacity. The arrays live in a store, so that two slices on one array
  share its elements. \<^verbatim>\<open>append\<close> writes into the array of its first argument when the
  capacity suffices and allocates a new array otherwise (the capacity of the new array
  is never read by this program; it is taken to be the new length).
\<close>

record slice =
  arr :: nat
  off :: nat
  len :: nat
  cap :: nat

definition elems :: "'a list list \<Rightarrow> slice \<Rightarrow> 'a list" where
  "elems A s = take (len s) (drop (off s) (A ! arr s))"

definition overwrite :: "'a list \<Rightarrow> nat \<Rightarrow> 'a list \<Rightarrow> 'a list" where
  "overwrite ys i xs = take i ys @ xs @ drop (i + length xs) ys"

definition go_append :: "'a list list \<Rightarrow> slice \<Rightarrow> 'a list \<Rightarrow> slice \<times> 'a list list" where
  "go_append A s xs =
     (if len s + length xs \<le> cap s
      then (s\<lparr>len := len s + length xs\<rparr>,
            A[arr s := overwrite (A ! arr s) (off s + len s) xs])
      else (\<lparr>arr = length A, off = 0, len = len s + length xs, cap = len s + length xs\<rparr>,
            A @ [elems A s @ xs]))"

text \<open>
  The slice that a call with explicit variadic arguments \<^verbatim>\<open>f(x1, ..., xn)\<close> passes: a
  new array holding exactly the arguments.
\<close>

definition variadic :: "'a list list \<Rightarrow> 'a list \<Rightarrow> slice \<times> 'a list list" where
  "variadic A xs = (\<lparr>arr = length A, off = 0, len = length xs, cap = length xs\<rparr>, A @ [xs])"

section \<open>Handlers (rest.go, lines 60-69 and 203-217)\<close>

text \<open>
  A middleware function receives the context and a pointer to the request, and returns a
  context and an error; what it leaves in the request is returned with them.
\<close>

type_synonym 'c RestFunc = "'c \<Rightarrow> request \<Rightarrow> ('c \<times> goerror option) \<times> request"

text \<open>
  The dynamic type of a handler prototype: the \<^verbatim>\<open>reflect.Type\<close> of the value (for a
  pointer type, of what it points to) and its method set, as far as the four capability
  interfaces look at it. A method receives the handler instance and the context.
\<close>

type_synonym ('c, 'e, 'r) gomethod = "'e obj \<Rightarrow> 'c \<Rightarrow> 'r reply \<times> goerror option"

record ('c, 'e, 'r) gotype =
  shape :: "'e rtype"
  Get :: "('c, 'e, 'r) gomethod option"
  Post :: "('c, 'e, 'r) gomethod option"
  Put :: "('c, 'e, 'r) gomethod option"
  Delete :: "('c, 'e, 'r) gomethod option"

text \<open>
  A value of type \<^verbatim>\<open>interface{}\<close> given as a handler prototype: the nil interface, a
  pointer (nil, or the address of a variable) or a value that is not a pointer.
\<close>

datatype ('c, 'e, 'r) iface =
    INil
  | IPtr "('c, 'e, 'r) gotype" "nat option"
  | IVal "('c, 'e, 'r) gotype" "'e obj"

text \<open>The type assertions \<^verbatim>\<open>v.(Getter)\<close>, \<^verbatim>\<open>v.(Poster)\<close>, \<^verbatim>\<open>v.(Putter)\<close>, \<^verbatim>\<open>v.(Deleter)\<close>.\<close>

fun methods :: "('c, 'e, 'r) iface \<Rightarrow> (('c, 'e, 'r) gotype \<Rightarrow> ('c, 'e, 'r) gomethod option)
    \<Rightarrow> ('c, 'e, 'r) gomethod option" where
  "methods INil sel = None"
| "methods (IPtr t p) sel = sel t"
| "methods (IVal t x) sel = sel t"

definition asGetter :: "('c, 'e, 'r) iface \<Rightarrow> ('c, 'e, 'r) gomethod option" where
  "asGetter v = methods v Get"

definition asPoster :: "('c, 'e, 'r) iface \<Rightarrow> ('c, 'e, 'r) gomethod option" where
  "asPoster v = methods v Post"

definition asPutter :: "('c, 'e, 'r) iface \<Rightarrow> ('c, 'e, 'r) gomethod option" where
  "asPutter v = methods v Put"

definition asDeleter :: "('c, 'e, 'r) iface \<Rightarrow> ('c, 'e, 'r) gomethod option" where
  "asDeleter v = methods v Delete"

record ('c, 'e, 'r) handler =
  impl :: "('c, 'e, 'r) iface"
  middleware :: slice

section \<open>serveError (rest.go, lines 137-144)\<close>

text \<open>
  The assertion \<^verbatim>\<open>NewStatusError(...).(StatusError)\<close> of line 140 is on a value that
  \<open>NewStatusError\<close> has just built, so its other branch is never taken. The encoder's
  error is dropped, as in the source.
\<close>

definition serveError :: "('c, 'e, 'r) env \<Rightarrow> goerror \<Rightarrow> 'c event list" where
  "serveError env err =
     (let herr = (case asStatusError err of
                    Some h \<Rightarrow> h
                  | None \<Rightarrow> (case NewStatusError (Error err) StatusBadRequest of
                               Status h \<Rightarrow> h
                             | Plain m \<Rightarrow> \<lparr>Err = m, StatusCode = 0\<rparr>))
      in [WriteHeader (StatusCode herr), Write (jsonText env (StatusError_json herr))])"

section \<open>handler.serve (rest.go, lines 146-201)\<close>

text \<open>Lines 149-155: the instance of this request.\<close>

definition newInstance :: "'e rtype \<Rightarrow> nat option \<Rightarrow> 'e heap \<Rightarrow> nat \<times> 'e heap" where
  "newInstance t p hp =
     (case p of
        Some orig \<Rightarrow> (let (a, hp') = reflect_New t hp in (a, store hp' a (cell hp' orig)))
      | None \<Rightarrow> reflect_New t hp)"

text \<open>
  Lines 169-174: the retry for a slice whose element type is \<open>et\<close>. The variable at
  \<open>a\<close> is set to a slice of one zero element, a variable \<open>z\<close> of the element type is
  allocated, the binder is run on the variable at \<open>a\<close> again, and on its success the
  first element of the slice at \<open>a\<close> is set to what \<open>z\<close> holds; \<^verbatim>\<open>Index(0)\<close> panics on
  an empty slice.
\<close>

definition setFirst :: "'e heap \<Rightarrow> nat \<Rightarrow> nat \<Rightarrow> (string \<times> 'e heap) + ('e heap \<times> goerror option)" where
  "setFirst hp a z =
     (case cell hp a of
        Slice (e0 # es) \<Rightarrow> Inr (store hp a (Slice (cell hp z # es)), None)
      | _ \<Rightarrow> Inl (''reflect: slice index out of range'', hp))"

definition retry :: "('c, 'e, 'r) env \<Rightarrow> 'e rtype \<Rightarrow> params \<Rightarrow> nat \<Rightarrow> 'e heap
    \<Rightarrow> (string \<times> 'e heap) + ('e heap \<times> goerror option)" where
  "retry env et ps a hp =
     (let hp2 = store hp a (MakeSlice et 1);
          (z, hp3) = reflect_New et hp2
      in case Unmarshal env ps (cell hp3 a) of
           (y, Some err2) \<Rightarrow> Inr (store hp3 a y, Some err2)
         | (y, None) \<Rightarrow> setFirst (store hp3 a y) a z)"

text \<open>
  Lines 156-175: binding. The result is a panic or the error of the binding, with the
  memory. The binder is given the variable that the target points to and returns what
  it leaves there.
\<close>

definition bind :: "('c, 'e, 'r) env \<Rightarrow> 'e rtype \<Rightarrow> params \<Rightarrow> nat \<Rightarrow> 'e heap
    \<Rightarrow> (string \<times> 'e heap) + ('e heap \<times> goerror option)" where
  "bind env t ps a hp =
     (let isSlice = (Kind t = KSlice) in
      case Unmarshal env ps (cell hp a) of
        (x, None) \<Rightarrow> Inr (store hp a x, None)
      | (x, Some err) \<Rightarrow>
          (let hp1 = store hp a x in
           if \<not> isSlice then Inr (hp1, Some err)
           else (case t of
                   TSlice et \<Rightarrow> retry env et ps a hp1
                 | _ \<Rightarrow> Inr (hp1, Some err))))"

text \<open>Lines 178-200: the switch on the request method.\<close>

definition unsupported :: "request \<Rightarrow> goerror" where
  "unsupported r = Plain (Method r @ '' unsupported method for '' @ RequestURI r)"

definition call :: "verb \<Rightarrow> ('c, 'e, 'r) gomethod option \<Rightarrow> 'e obj \<Rightarrow> 'c \<Rightarrow> request
    \<Rightarrow> 'c event list \<times> 'r reply \<times> goerror option" where
  "call vb m recv ctx r =
     (case m of
        Some f \<Rightarrow> (Verb vb ctx # [], f recv ctx)
      | None \<Rightarrow> ([], RNil, Some (unsupported r)))"

definition dispatch :: "('c, 'e, 'r) iface \<Rightarrow> 'e obj \<Rightarrow> 'c \<Rightarrow> request
    \<Rightarrow> 'c event list \<times> 'r reply \<times> goerror option" where
  "dispatch v recv ctx r =
     (if Method r = ''GET'' then call GET (asGetter v) recv ctx r
      else if Method r = ''POST'' then call POST (asPoster v) recv ctx r
      else if Method r = ''PUT'' then call PUT (asPutter v) recv ctx r
      else if Method r = ''DELETE'' then call DELETE (asDeleter v) recv ctx r
      else ([], RNil, Some (unsupported r)))"

datatype ('c, 'e, 'r) served =
    Panic string "'e heap"
  | Returned "'e heap" "'c event list" "'r reply" "goerror option"

definition serve :: "('c, 'e, 'r) env \<Rightarrow> ('c, 'e, 'r) handler \<Rightarrow> 'c \<Rightarrow> params \<Rightarrow> 'e heap
    \<Rightarrow> ('c, 'e, 'r) served" where
  "serve env h ctx ps hp =
     (case impl h of
        INil \<Rightarrow> Panic ''reflect: call of reflect.Value.Type on zero Value'' hp
      | IVal t x \<Rightarrow>
          (case dispatch (IVal t x) x ctx (Request ps) of
             (evs, v, err) \<Rightarrow> Returned hp evs v err)
      | IPtr t p \<Rightarrow>
          (let (a, hp1) = newInstance (shape t) p hp in
           case bind env (shape t) ps a hp1 of
             Inl (msg, hp2) \<Rightarrow> Panic msg hp2
           | Inr (hp2, Some err) \<Rightarrow> Returned hp2 [] RNil (Some err)
           | Inr (hp2, None) \<Rightarrow>
               (case dispatch (IPtr t (Some a)) (cell hp2 a) ctx (Request ps) of
                  (evs, v, err) \<Rightarrow> Returned hp2 evs v err)))"

section \<open>handler.handle (rest.go, lines 71-135)\<close>

text \<open>Lines 79-86: the loop over the middleware, from index \<open>i\<close>.\<close>

fun runMiddleware :: "'c RestFunc list \<Rightarrow> nat \<Rightarrow> 'c \<Rightarrow> request
    \<Rightarrow> 'c event list \<times> 'c \<times> goerror option \<times> request" where
  "runMiddleware [] i ctx r = ([], ctx, None, r)"
| "runMiddleware (f # fs) i ctx r =
     (case f ctx r of
        ((ctx', Some err), r') \<Rightarrow> ([Middleware i ctx], ctx', Some err, r')
      | ((ctx', None), r') \<Rightarrow>
          (case runMiddleware fs (Suc i) ctx' r' of
             (evs, res) \<Rightarrow> (Middleware i ctx # evs, res)))"

text \<open>Lines 112-116 and 121-125: the JSON encoder on the response, and its error.\<close>

definition encodeJSON :: "('c, 'e, 'r) env \<Rightarrow> 'r reply \<Rightarrow> 'c event list" where
  "encodeJSON env v =
     (case jsonEncode env v of
        Inl err \<Rightarrow> serveError env err
      | Inr b \<Rightarrow> [Write b])"

definition useProto :: "request \<Rightarrow> bool" where
  "useProto r = Contains (ToLower (HeaderGet (Header r) ''Accept'')) ''application/x-protobuf''"

text \<open>
  Lines 100-134: writing the result of the handler. The request is read here, after the
  middleware has had the pointer to it.
\<close>

definition writeResult :: "('c, 'e, 'r) env \<Rightarrow> request \<Rightarrow> 'r reply \<Rightarrow> 'c event list" where
  "writeResult env r v =
     (case v of
        RBytes b \<Rightarrow> [Write b]
      | RString s \<Rightarrow> [Write s]
      | _ \<Rightarrow>
          if \<not> useProto r then encodeJSON env v
          else (case asProtoMessage env v of
                  None \<Rightarrow> encodeJSON env v
                | Some p \<Rightarrow>
                    (case protoMarshal env p of
                       Inl err \<Rightarrow> serveError env err
                     | Inr b \<Rightarrow> [HeaderSet ''Content-Type'' ''application/x-protobuf'', Write b])))"

text \<open>
  What \<open>handle\<close> leaves: the calls it made in order, the memory, the request, and the
  message of the panic if it panicked. The parameters given to \<open>serve\<close> hold the
  pointer to the request, so \<open>serve\<close> reads the request as the middleware left it.
\<close>

record ('c, 'e) outcome =
  events :: "'c event list"
  memory :: "'e heap"
  req :: request
  panicked :: "string option"

definition setHeaders :: "'c event list" where
  "setHeaders = [HeaderSet ''Content-Type'' ''application/json; charset=utf-8'',
                 HeaderSet ''Access-Control-Allow-Origin'' ''*'']"

definition handle :: "('c, 'e, 'r) env \<Rightarrow> 'c RestFunc list list \<Rightarrow> ('c, 'e, 'r) handler
    \<Rightarrow> request \<Rightarrow> (string \<times> string) list \<Rightarrow> 'e heap \<Rightarrow> ('c, 'e) outcome" where
  "handle env A h r ps hp =
     (let r0 = r\<lparr>Form := ParseForm env r\<rparr>;
          ctx0 = Background env
      in case runMiddleware (elems A (middleware h)) 0 ctx0 r0 of
           (evs, ctx, Some err, r1) \<Rightarrow>
             \<lparr>events = setHeaders @ evs @ serveError env err, memory = hp, req = r1,
              panicked = None\<rparr>
         | (evs, ctx, None, r1) \<Rightarrow>
             (case (if IsDevAppServer env
                    then serve env h ctx \<lparr>Request = r1, PathVar = ps\<rparr> hp
                    else serve env h ctx \<lparr>Request = r1, PathVar = ps\<rparr> hp) of
                Panic msg hp' \<Rightarrow>
                  \<lparr>events = setHeaders @ evs, memory = hp', req = r1, panicked = Some msg\<rparr>
              | Returned hp' evs' v (Some err) \<Rightarrow>
                  \<lparr>events = setHeaders @ evs @ evs' @ serveError env err, memory = hp',
                   req = r1, panicked = None\<rparr>
              | Returned hp' evs' v None \<Rightarrow>
                  \<lparr>events = setHeaders @ evs @ evs' @ writeResult env r1 v, memory = hp',
                   req = r1, panicked = None\<rparr>))"

section \<open>ServeMux (rest.go, lines 18-49)\<close>

text \<open>
  The router is the list of its registrations: verb, pattern and the handler whose
  \<^verbatim>\<open>handle\<close> was registered, in the order of the calls.
\<close>

record ('c, 'e, 'r) ServeMux =
  router :: "(verb \<times> string \<times> ('c, 'e, 'r) handler) list"
  mux_middleware :: slice

definition New :: "slice \<Rightarrow> ('c, 'e, 'r) ServeMux" where
  "New options = \<lparr>router = [], mux_middleware = options\<rparr>"

definition register :: "bool \<Rightarrow> verb \<Rightarrow> string \<Rightarrow> ('c, 'e, 'r) handler
    \<Rightarrow> (verb \<times> string \<times> ('c, 'e, 'r) handler) list
    \<Rightarrow> (verb \<times> string \<times> ('c, 'e, 'r) handler) list" where
  "register ok vb path h rt = (if ok then rt @ [(vb, path, h)] else rt)"

definition Handle :: "'c RestFunc list list \<Rightarrow> ('c, 'e, 'r) ServeMux \<Rightarrow> string
    \<Rightarrow> ('c, 'e, 'r) iface \<Rightarrow> 'c RestFunc list
    \<Rightarrow> ('c, 'e, 'r) ServeMux \<times> 'c RestFunc list list" where
  "Handle A mux path v options =
     (let (m, A') = go_append A (mux_middleware mux) options;
          h = \<lparr>impl = v, middleware = m\<rparr>;
          rt0 = router mux;
          rt1 = register (asGetter v \<noteq> None) GET path h rt0;
          rt2 = register (asPoster v \<noteq> None) POST path h rt1;
          rt3 = register (asPutter v \<noteq> None) PUT path h rt2;
          rt4 = register (asDeleter v \<noteq> None) DELETE path h rt3
      in (mux\<lparr>router := rt4\<rparr>, A'))"

section \<open>Notions the properties are stated with\<close>

text \<open>Whether a prototype implements the capability interface of a verb.\<close>

fun implements :: "('c, 'e, 'r) iface \<Rightarrow> verb \<Rightarrow> bool" where
  "implements v GET = (asGetter v \<noteq> None)"
| "implements v POST = (asPoster v \<noteq> None)"
| "implements v PUT = (asPutter v \<noteq> None)"
| "implements v DELETE = (asDeleter v \<noteq> None)"

text \<open>
  The capability that matches a request method, as a method of the value when the value
  has it; no capability matches a method outside the four.
\<close>

definition capability :: "('c, 'e, 'r) iface \<Rightarrow> string \<Rightarrow> ('c, 'e, 'r) gomethod option" where
  "capability v m =
     (if m = ''GET'' then asGetter v
      else if m = ''POST'' then asPoster v
      else if m = ''PUT'' then asPutter v
      else if m = ''DELETE'' then asDeleter v
      else None)"

text \<open>
  What a chain of middleware computes when each function receives what the previous one
  returned: \<open>stateAt fs s i\<close> is the context and the request after the first \<open>i\<close>
  functions, \<open>failure f s\<close> the error of \<open>f\<close> on them.
\<close>

definition step :: "'c RestFunc \<Rightarrow> 'c \<times> request \<Rightarrow> 'c \<times> request" where
  "step f s = (case f (fst s) (snd s) of ((ctx', err), r') \<Rightarrow> (ctx', r'))"

definition failure :: "'c RestFunc \<Rightarrow> 'c \<times> request \<Rightarrow> goerror option" where
  "failure f s = snd (fst (f (fst s) (snd s)))"

definition stateAt :: "'c RestFunc list \<Rightarrow> 'c \<times> request \<Rightarrow> nat \<Rightarrow> 'c \<times> request" where
  "stateAt fs s i = foldl (\<lambda>s f. step f s) s (take i fs)"

definition called :: "'c RestFunc list \<Rightarrow> 'c \<times> request \<Rightarrow> nat \<Rightarrow> 'c event list" where
  "called fs s n = map (\<lambda>j. Middleware j (fst (stateAt fs s j))) [0..<n]"

text \<open>
  The chain of a handler as it is read at request time, and the context and request
  that \<open>handle\<close> starts the chain with.
\<close>

definition chainOf :: "'c RestFunc list list \<Rightarrow> ('c, 'e, 'r) handler \<Rightarrow> 'c RestFunc list" where
  "chainOf A h = elems A (middleware h)"

definition start :: "('c, 'e, 'r) env \<Rightarrow> request \<Rightarrow> 'c \<times> request" where
  "start env r = (Background env, r\<lparr>Form := ParseForm env r\<rparr>)"



text \<open>The kinds of calls.\<close>

fun isHeaderSet :: "'c event \<Rightarrow> bool" where
  "isHeaderSet (HeaderSet k v) = True"
| "isHeaderSet e = False"

fun isMiddleware :: "'c event \<Rightarrow> bool" where
  "isMiddleware (Middleware i c) = True"
| "isMiddleware e = False"

fun isVerb :: "'c event \<Rightarrow> bool" where
  "isVerb (Verb v c) = True"
| "isVerb e = False"

section \<open>A concrete instance: the handler of example\_test.go\<close>

text \<open>
  Contexts are lists of tags, a struct holds the name bound to it, results are strings.
  The binder fills a struct from the path variable \<^verbatim>\<open>name\<close> and refuses every target
  that is not a struct; the JSON text is written without escapes; the binary encoding of
  a result is the result itself and fails on the empty one.
\<close>

fun decimal :: "nat \<Rightarrow> nat \<Rightarrow> string" where
  "decimal 0 n = []"
| "decimal (Suc k) n =
     (if n < 10 then [char_of (48 + n)] else decimal k (n div 10) @ [char_of (48 + n mod 10)])"

fun showJSON :: "json \<Rightarrow> string"
  and showMembers :: "(string \<times> json) list \<Rightarrow> string" where
  "showJSON (JString s) = CHR 0x22 # s @ [CHR 0x22]"
| "showJSON (JNumber n) =
     (if n < 0 then CHR ''-'' # decimal 20 (nat (- n)) else decimal 20 (nat n))"
| "showJSON (JObject ms) = ''{'' @ showMembers ms @ ''}''"
| "showMembers [] = []"
| "showMembers ((k, j) # ms) =
     CHR 0x22 # k @ [CHR 0x22] @ '':'' @ showJSON j
       @ (if ms = [] then [] else '','' @ showMembers ms)"

definition bindName :: "params \<Rightarrow> string obj \<Rightarrow> string obj \<times> goerror option" where
  "bindName ps x =
     (case x of
        Struct n \<Rightarrow> (case map_of (PathVar ps) ''name'' of
                      Some v \<Rightarrow> (Struct v, None)
                    | None \<Rightarrow> (x, Some (Plain ''missing name'')))
      | _ \<Rightarrow> (x, Some (Plain ''not a pointer to a struct'')))"

definition hello_env :: "(string list, string, string) env" where
  "hello_env =
     \<lparr>Background = [], IsDevAppServer = False, ParseForm = (\<lambda>r. []), Unmarshal = bindName,
      jsonText = (\<lambda>j. showJSON j @ [CHR 0x0A]),
      jsonEncode = (\<lambda>v. case v of
                          ROther x \<Rightarrow> Inr (showJSON (JString x) @ [CHR 0x0A])
                        | _ \<Rightarrow> Inr (''null'' @ [CHR 0x0A])),
      protoMessage = (\<lambda>x. True),
      protoMarshal = (\<lambda>x. if x = [] then Inl (Plain ''proto: Marshal called with nil'')
                           else Inr x)\<rparr>"

definition HelloReq :: "(string list, string, string) gotype" where
  "HelloReq =
     \<lparr>shape = TStruct [],
      Get = Some (\<lambda>recv ctx. case recv of
                               Struct n \<Rightarrow> (RString (''Hello '' @ n), None)
                             | _ \<Rightarrow> (RNil, None)),
      Post = None, Put = None, Delete = None\<rparr>"

text \<open>\<^verbatim>\<open>new(HelloReq)\<close> at address 0, and the memory that holds it.\<close>

definition hello_heap :: "string heap" where
  "hello_heap = \<lparr>cell = (\<lambda>a. Struct []), nextAddr = 1\<rparr>"

definition hello_request :: request where
  "hello_request = \<lparr>Method = ''GET'', RequestURI = ''/Alice'', Header = Map.empty, Form = []\<rparr>"

definition no_middleware :: slice where
  "no_middleware = \<lparr>arr = 0, off = 0, len = 0, cap = 0\<rparr>"

definition hello_handler :: "(string list, string, string) handler" where
  "hello_handler = \<lparr>impl = IPtr HelloReq (Some 0), middleware = no_middleware\<rparr>"

definition hello_mux :: "(string list, string, string) ServeMux" where
  "hello_mux = New no_middleware"

text \<open>Three middleware functions: two that tag the context, one that refuses.\<close>

definition tagA :: "string list RestFunc" where
  "tagA ctx r = ((ctx @ [''A''], None), r)"

definition tagB :: "string list RestFunc" where
  "tagB ctx r = ((ctx @ [''B''], None), r)"

definition tagC :: "string list RestFunc" where
  "tagC ctx r = ((ctx @ [''C''], None), r)"

definition deny :: "string list RestFunc" where
  "deny ctx r = ((ctx, Some (NewStatusError ''forbidden'' 403)), r)"

definition guarded_handler :: "(string list, string, string) handler" where
  "guarded_handler = \<lparr>impl = IPtr HelloReq (Some 0),
                      middleware = \<lparr>arr = 0, off = 0, len = 3, cap = 3\<rparr>\<rparr>"

definition guard_arrays :: "string list RestFunc list list" where
  "guard_arrays = [[tagA, deny, tagB]]"

definition pass_arrays :: "string list RestFunc list list" where
  "pass_arrays = [[tagA, tagB]]"

definition tagged_handler :: "(string list, string, string) handler" where
  "tagged_handler = \<lparr>impl = IPtr HelloReq (Some 0),
                     middleware = \<lparr>arr = 0, off = 0, len = 2, cap = 2\<rparr>\<rparr>"

definition alice :: "(string \<times> string) list" where
  "alice = [(''name'', ''Alice'')]"





text \<open>A POST request, and a handler prototype that is not a pointer.\<close>

definition post_request :: request where
  "post_request = hello_request\<lparr>Method := ''POST''\<rparr>"

definition value_handler :: "(string list, string, string) handler" where
  "value_handler = \<lparr>impl = IVal HelloReq (Struct ''Bob''), middleware = no_middleware\<rparr>"

text \<open>
  A handler whose shape is a slice of structs, registered as a pointer to a nil slice,
  and a second binder, which also fills the single element of a one-element slice.
\<close>

definition Items :: "(string list, string, string) gotype" where
  "Items =
     \<lparr>shape = TSlice (TStruct []),
      Get = Some (\<lambda>recv ctx. case recv of
                               Slice [Struct n] \<Rightarrow> (RString (''Hello '' @ n), None)
                             | _ \<Rightarrow> (RString ''nobody'', None)),
      Post = None, Put = None, Delete = None\<rparr>"

definition items_heap :: "string heap" where
  "items_heap = \<lparr>cell = (\<lambda>a. Slice []), nextAddr = 1\<rparr>"

definition items_handler :: "(string list, string, string) handler" where
  "items_handler = \<lparr>impl = IPtr Items (Some 0), middleware = no_middleware\<rparr>"

definition bindFirst :: "params \<Rightarrow> string obj \<Rightarrow> string obj \<times> goerror option" where
  "bindFirst ps x =
     (case x of
        Slice [Struct n] \<Rightarrow> (case map_of (PathVar ps) ''name'' of
                              Some v \<Rightarrow> (Slice [Struct v], None)
                            | None \<Rightarrow> (x, Some (Plain ''missing name'')))
      | _ \<Rightarrow> bindName ps x)"

definition first_env :: "(string list, string, string) env" where
  "first_env = hello_env\<lparr>Unmarshal := bindFirst\<rparr>"

text \<open>
  A mux made by \<^verbatim>\<open>New(base...)\<close> from a slice \<^verbatim>\<open>base\<close> of length 1 and capacity 2 that
  holds \<open>tagA\<close>, and two registrations on it, each with one middleware of its own.
\<close>

definition shared_arrays :: "string list RestFunc list list" where
  "shared_arrays = [[tagA, deny]]"

definition shared_mux :: "(string list, string, string) ServeMux" where
  "shared_mux = New \<lparr>arr = 0, off = 0, len = 1, cap = 2\<rparr>"

definition after_b ::
    "(string list, string, string) ServeMux \<times> string list RestFunc list list" where
  "after_b = Handle shared_arrays shared_mux ''/b/:name'' (IPtr HelloReq (Some 0)) [tagB]"

definition after_c ::
    "(string list, string, string) ServeMux \<times> string list RestFunc list list" where
  "after_c = Handle (snd after_b) (fst after_b) ''/c/:name'' (IPtr HelloReq (Some 0)) [tagC]"

definition handler_b :: "(string list, string, string) handler" where
  "handler_b = snd (snd (router (fst after_b) ! 0))"

definition ran :: "string list RestFunc list \<Rightarrow> string list list" where
  "ran fs = map (\<lambda>f. fst (fst (f [] hello_request))) fs"

section \<open>Calls and what they leave on the response\<close>

lemma replay_Nil [simp]: "replay [] w = w"
  by (simp add: replay_def)

lemma replay_Cons [simp]: "replay (e # evs) w = replay evs (apply_event w e)"
  by (simp add: replay_def)

lemma replay_append [simp]: "replay (xs @ ys) w = replay ys (replay xs w)"
  by (simp add: replay_def)

lemma replay_calls:
  "\<forall>e \<in> set evs. isMiddleware e \<or> isVerb e \<Longrightarrow> replay evs w = w"
proof (induction evs arbitrary: w)
  case Nil
  then show ?case by simp
next
  case (Cons e evs)
  then have "apply_event w e = w"
    by (cases e) simp_all
  with Cons show ?case by simp
qed

lemma runMiddleware_events:
  "runMiddleware fs i c r = (evs, res) \<Longrightarrow> \<forall>e \<in> set evs. isMiddleware e"
proof (induction fs arbitrary: i c r evs res)
  case Nil
  then show ?case by simp
next
  case (Cons f fs)
  obtain c' err r' where f: "f c r = ((c', err), r')"
    by (metis prod.exhaust)
  show ?case
  proof (cases err)
    case None
    obtain evs' res' where rec: "runMiddleware fs (Suc i) c' r' = (evs', res')"
      by (metis prod.exhaust)
    with Cons.prems f None have "evs = Middleware i c # evs'"
      by simp
    moreover from Cons.IH [OF rec] have "\<forall>e \<in> set evs'. isMiddleware e" .
    ultimately show ?thesis by simp
  next
    case (Some e)
    with Cons.prems f show ?thesis by auto
  qed
qed

lemma call_events:
  "call vb m recv ctx r = (evs, res) \<Longrightarrow> evs = [] \<or> evs = [Verb vb ctx]"
  by (auto simp: call_def split: option.splits)

lemma dispatch_events:
  "dispatch v recv ctx r = (evs, res) \<Longrightarrow> \<forall>e \<in> set evs. e = Verb GET ctx \<or> e = Verb POST ctx \<or> e = Verb PUT ctx \<or> e = Verb DELETE ctx"
  by (auto simp: dispatch_def split: if_splits dest!: call_events)

lemma serve_events:
  assumes "serve env h ctx ps hp = Returned hp' evs v err"
  shows "\<forall>e \<in> set evs. e = Verb GET ctx \<or> e = Verb POST ctx \<or> e = Verb PUT ctx \<or> e = Verb DELETE ctx"
proof (cases "impl h")
  case INil
  with assms show ?thesis by (simp add: serve_def)
next
  case (IPtr t p)
  with assms show ?thesis
    by (auto simp: serve_def Let_def split: prod.splits sum.splits option.splits dest!: dispatch_events)
next
  case (IVal t x)
  with assms show ?thesis
    by (auto simp: serve_def split: prod.splits dest!: dispatch_events)
qed

lemma handle_cases [case_names mwfail panic error ok]:
  fixes env :: "('c, 'e, 'r) env"
  obtains evs ctx e r1 where
      "runMiddleware (elems A (middleware h)) 0 (Background env) (r\<lparr>Form := ParseForm env r\<rparr>)
         = (evs, ctx, Some e, r1)"
      "handle env A h r ps hp =
         \<lparr>events = setHeaders @ evs @ serveError env e, memory = hp, req = r1, panicked = None\<rparr>"
  | evs ctx r1 msg hp' where
      "runMiddleware (elems A (middleware h)) 0 (Background env) (r\<lparr>Form := ParseForm env r\<rparr>)
         = (evs, ctx, None, r1)"
      "serve env h ctx \<lparr>Request = r1, PathVar = ps\<rparr> hp = Panic msg hp'"
      "handle env A h r ps hp =
         \<lparr>events = setHeaders @ evs, memory = hp', req = r1, panicked = Some msg\<rparr>"
  | evs ctx r1 hp' evs' v e where
      "runMiddleware (elems A (middleware h)) 0 (Background env) (r\<lparr>Form := ParseForm env r\<rparr>)
         = (evs, ctx, None, r1)"
      "serve env h ctx \<lparr>Request = r1, PathVar = ps\<rparr> hp = Returned hp' evs' v (Some e)"
      "handle env A h r ps hp =
         \<lparr>events = setHeaders @ evs @ evs' @ serveError env e, memory = hp', req = r1,
          panicked = None\<rparr>"
  | evs ctx r1 hp' evs' v where
      "runMiddleware (elems A (middleware h)) 0 (Background env) (r\<lparr>Form := ParseForm env r\<rparr>)
         = (evs, ctx, None, r1)"
      "serve env h ctx \<lparr>Request = r1, PathVar = ps\<rparr> hp = Returned hp' evs' v None"
      "handle env A h r ps hp =
         \<lparr>events = setHeaders @ evs @ evs' @ writeResult env r1 v, memory = hp', req = r1,
          panicked = None\<rparr>"
proof -
  obtain evs ctx err r1 where rm:
    "runMiddleware (elems A (middleware h)) 0 (Background env) (r\<lparr>Form := ParseForm env r\<rparr>)
       = (evs, ctx, err, r1)"
    by (metis prod.exhaust)
  show thesis
  proof (cases err)
    case (Some e)
    with rm that(1) show thesis
      by (simp add: handle_def)
  next
    case None
    show thesis
    proof (cases "serve env h ctx \<lparr>Request = r1, PathVar = ps\<rparr> hp")
      case (Panic msg hp')
      with rm None that(2) show thesis
        by (simp add: handle_def)
    next
      case (Returned hp' evs' v err')
      with rm None that(3) that(4) show thesis
        by (cases err') (simp_all add: handle_def)
    qed
  qed
qed

section \<open>Registration\<close>

lemma Handle_router:
  "router (fst (Handle A mux path v options)) =
     router mux @
     map (\<lambda>vb. (vb, path,
                \<lparr>impl = v, middleware = fst (go_append A (mux_middleware mux) options)\<rparr>))
         (filter (implements v) [GET, POST, PUT, DELETE])"
  by (simp add: Handle_def register_def Let_def case_prod_beta)

text \<open>
  C1. \<open>Handle\<close> adds to the router, for the given pattern, one registration for each of
  the verbs GET, POST, PUT, DELETE whose capability interface the prototype implements,
  and no other: the registrations of the router afterwards are those it had, followed
  by the pattern with the new handler under exactly the implemented verbs. A prototype
  that implements none of the four leaves the router as it was.
\<close>

theorem Handle_registers:
  "router (fst (Handle A mux path v options)) =
     router mux @
     map (\<lambda>vb. (vb, path,
                \<lparr>impl = v, middleware = fst (go_append A (mux_middleware mux) options)\<rparr>))
         (filter (implements v) [GET, POST, PUT, DELETE])
   \<and> ((\<forall>vb. \<not> implements v vb) \<longrightarrow>
        router (fst (Handle A mux path v options)) = router mux)"
proof -
  have "(\<forall>vb. \<not> implements v vb) \<longrightarrow> filter (implements v) [GET, POST, PUT, DELETE] = []"
    by (simp add: filter_empty_conv del: implements.simps)
  then show ?thesis
    using Handle_router [of A mux path v options]
    by (auto simp del: implements.simps filter.simps)
qed

theorem Handle_registers_witness:
  "(\<forall>vb. \<not> implements (INil :: (string list, string, string) iface) vb)
   \<and> router (fst (Handle [[]] hello_mux ''/:name'' INil [])) = []
   \<and> map fst (router (fst (Handle [[]] hello_mux ''/:name'' (IPtr HelloReq (Some 0)) [])))
       = [GET]"
proof -
  have a: "\<forall>vb. \<not> implements (INil :: (string list, string, string) iface) vb"
  proof
    fix vb
    show "\<not> implements (INil :: (string list, string, string) iface) vb"
      by (cases vb) (simp_all add: asGetter_def asPoster_def asPutter_def asDeleter_def)
  qed
  have b: "filter (implements (IPtr HelloReq (Some 0))) [GET, POST, PUT, DELETE] = [GET]"
    by (simp add: asGetter_def asPoster_def asPutter_def asDeleter_def HelloReq_def)
  have c: "router hello_mux = []"
    by (simp add: New_def hello_mux_def)
  have d: "map fst (router (fst (Handle [[]] hello_mux ''/:name'' (IPtr HelloReq (Some 0)) [])))
      = [GET]"
    using Handle_registers [of "[[]]" hello_mux "''/:name''" "IPtr HelloReq (Some 0)" "[]",
        THEN conjunct1]
    by (simp only: b c) simp
  have e: "router (fst (Handle [[]] hello_mux ''/:name'' INil [])) = []"
    using Handle_registers [of "[[]]" hello_mux "''/:name''" INil "[]",
        THEN conjunct2, rule_format, OF a [rule_format]]
    by (simp only: c)
  from a d e show ?thesis by blast
qed

section \<open>The error path\<close>



lemma header_send [simp]: "header (send code w) = header w"
  by (simp add: send_def split: option.splits)

lemma body_send [simp]: "body (send code w) = body w"
  by (simp add: send_def split: option.splits)

lemma sent_send: "sent w = None \<Longrightarrow> sent (send code w) = Some (code, header w)"
  by (simp add: send_def)

lemma header_Write [simp]: "header (apply_event w (Write b)) = header w"
  by (simp add: Let_def)

lemma body_Write [simp]: "body (apply_event w (Write b)) = body w @ b"
  by (simp add: Let_def)

lemma serveError_shape:
  "\<exists>code j. serveError env e = [WriteHeader code, Write j]"
  by (simp add: serveError_def Let_def)

lemma writeResult_cases:
  "(\<exists>b. writeResult env r v = [Write b])
   \<or> (\<exists>e. writeResult env r v = serveError env e)
   \<or> (\<exists>p b. useProto r \<and> asProtoMessage env v = Some p \<and> protoMarshal env p = Inr b
          \<and> writeResult env r v = [HeaderSet ''Content-Type'' ''application/x-protobuf'', Write b])"
  by (cases v) (auto simp: writeResult_def encodeJSON_def split: sum.splits option.splits)

lemma calls_no_HeaderSet:
  "\<forall>e \<in> set evs. isMiddleware e \<or> isVerb e \<Longrightarrow> filter isHeaderSet evs = []"
proof (induction evs)
  case Nil
  then show ?case by simp
next
  case (Cons e evs)
  then show ?case by (cases e) simp_all
qed

lemma serve_calls:
  assumes "serve env h ctx ps hp = Returned hp' evs v err"
  shows "\<forall>e \<in> set evs. isMiddleware e \<or> isVerb e"
  using serve_events [OF assms] by auto

lemma middleware_calls:
  assumes "runMiddleware fs i c r = (evs, res)"
  shows "\<forall>e \<in> set evs. isMiddleware e \<or> isVerb e"
  using runMiddleware_events [OF assms] by auto

lemma header_setHeaders:
  "header (replay setHeaders w) = (header w)(''Content-Type'' \<mapsto> ''application/json; charset=utf-8'',
      ''Access-Control-Allow-Origin'' \<mapsto> ''*'')"
  "sent (replay setHeaders w) = sent w"
  "body (replay setHeaders w) = body w"
  by (simp_all add: setHeaders_def)

section \<open>The fixed headers\<close>

text \<open>
  C9. Whatever way a request takes through \<open>handle\<close> (an error of a middleware, of the
  binding, of the dispatch or of an encoder, a panic, or a result), its first two calls
  set \<open>Content-Type\<close> to the JSON type and \<open>Access-Control-Allow-Origin\<close> to \<open>*\<close>, so
  they come before every call of a middleware. No header is set afterwards, except on
  the path that ends by writing the bytes that \<open>proto.Marshal\<close> returned, where
  \<open>Content-Type\<close> is set to the binary type just before. In the header map at the end the
  origin is \<open>*\<close> and the content type is one of the two.
\<close>

theorem handle_headers:
  fixes env :: "('c, 'e, 'r) env"
  shows "(\<exists>rest. events (handle env A h r ps hp) = setHeaders @ rest
      \<and> (filter isHeaderSet rest = []
         \<or> (\<exists>evs p b. rest = evs @ [HeaderSet ''Content-Type'' ''application/x-protobuf'', Write b]
               \<and> protoMarshal env p = Inr b \<and> filter isHeaderSet evs = [])))
   \<and> header (replay (events (handle env A h r ps hp)) w) ''Access-Control-Allow-Origin'' = Some ''*''
   \<and> (header (replay (events (handle env A h r ps hp)) w) ''Content-Type''
         = Some ''application/json; charset=utf-8''
      \<or> header (replay (events (handle env A h r ps hp)) w) ''Content-Type''
         = Some ''application/x-protobuf'')"
proof (cases rule: handle_cases [where env = env and A = A and h = h and r = r and ps = ps and hp = hp])
  case (mwfail evs ctx e r1)
  obtain code j where se: "serveError env e = [WriteHeader code, Write j]"
    using serveError_shape by blast
  have c: "\<forall>e \<in> set evs. isMiddleware e \<or> isVerb e"
    using middleware_calls [OF mwfail(1)] .
  have "filter isHeaderSet (evs @ serveError env e) = []"
    using calls_no_HeaderSet [OF c] se by simp
  moreover have "header (replay (events (handle env A h r ps hp)) w) = (header w)(''Content-Type'' \<mapsto> ''application/json; charset=utf-8'',
          ''Access-Control-Allow-Origin'' \<mapsto> ''*'')"
    using mwfail(2) se replay_calls [OF c] by (simp add: header_setHeaders)
  ultimately show ?thesis
    using mwfail(2) by simp
next
  case (panic evs ctx r1 msg hp')
  have c: "\<forall>e \<in> set evs. isMiddleware e \<or> isVerb e"
    using middleware_calls [OF panic(1)] .
  have "header (replay (events (handle env A h r ps hp)) w) = (header w)(''Content-Type'' \<mapsto> ''application/json; charset=utf-8'',
          ''Access-Control-Allow-Origin'' \<mapsto> ''*'')"
    using panic(3) replay_calls [OF c] by (simp add: header_setHeaders)
  then show ?thesis
    using panic(3) calls_no_HeaderSet [OF c] by (simp add: header_setHeaders)
next
  case (error evs ctx r1 hp' evs' v e)
  obtain code j where se: "serveError env e = [WriteHeader code, Write j]"
    using serveError_shape by blast
  have c: "\<forall>e \<in> set (evs @ evs'). isMiddleware e \<or> isVerb e"
    using middleware_calls [OF error(1)] serve_calls [OF error(2)] by auto
  have "filter isHeaderSet ((evs @ evs') @ serveError env e) = []"
    using calls_no_HeaderSet [OF c] se by simp
  moreover have "header (replay (events (handle env A h r ps hp)) w) = (header w)(''Content-Type'' \<mapsto> ''application/json; charset=utf-8'',
          ''Access-Control-Allow-Origin'' \<mapsto> ''*'')"
    using error(3) se replay_calls [OF c] by (simp add: header_setHeaders)
  ultimately show ?thesis
    using error(3) by (simp add: header_setHeaders)
next
  case (ok evs ctx r1 hp' evs' v)
  have c: "\<forall>e \<in> set (evs @ evs'). isMiddleware e \<or> isVerb e"
    using middleware_calls [OF ok(1)] serve_calls [OF ok(2)] by auto
  have ev: "events (handle env A h r ps hp) = setHeaders @ ((evs @ evs') @ writeResult env r1 v)"
    using ok(3) by simp
  have rp: "replay (events (handle env A h r ps hp)) w
      = replay (writeResult env r1 v) (replay (setHeaders :: 'c event list) w)"
    using ok(3) replay_calls [OF c] by simp
  consider (raw) b where "writeResult env r1 v = [Write b]"
    | (err) e where "writeResult env r1 v = serveError env e"
    | (proto) p b where "protoMarshal env p = Inr b"
        "writeResult env r1 v = [HeaderSet ''Content-Type'' ''application/x-protobuf'', Write b]"
    using writeResult_cases [of env r1 v] by blast
  then show ?thesis
  proof cases
    case raw
    have "filter isHeaderSet ((evs @ evs') @ writeResult env r1 v) = []"
      using calls_no_HeaderSet [OF c] raw by simp
    moreover have "header (replay (events (handle env A h r ps hp)) w) = (header w)(''Content-Type'' \<mapsto> ''application/json; charset=utf-8'',
          ''Access-Control-Allow-Origin'' \<mapsto> ''*'')"
      using rp raw by (simp add: header_setHeaders)
    ultimately show ?thesis
      using ev by (simp add: header_setHeaders)
  next
    case err
    obtain code j where se: "serveError env e = [WriteHeader code, Write j]"
      using serveError_shape by blast
    have "filter isHeaderSet ((evs @ evs') @ writeResult env r1 v) = []"
      using calls_no_HeaderSet [OF c] err se by simp
    moreover have "header (replay (events (handle env A h r ps hp)) w) = (header w)(''Content-Type'' \<mapsto> ''application/json; charset=utf-8'',
          ''Access-Control-Allow-Origin'' \<mapsto> ''*'')"
      using rp err se by (simp add: header_setHeaders)
    ultimately show ?thesis
      using ev by (simp add: header_setHeaders)
  next
    case proto
    have "(evs @ evs') @ writeResult env r1 v
        = (evs @ evs') @ [HeaderSet ''Content-Type'' ''application/x-protobuf'', Write b]
        \<and> protoMarshal env p = Inr b \<and> filter isHeaderSet (evs @ evs') = []"
      using calls_no_HeaderSet [OF c] proto by simp
    then have "\<exists>evs0 p b. (evs @ evs') @ writeResult env r1 v
        = evs0 @ [HeaderSet ''Content-Type'' ''application/x-protobuf'', Write b]
        \<and> protoMarshal env p = Inr b \<and> filter isHeaderSet evs0 = []"
      by blast
    moreover have "header (replay (events (handle env A h r ps hp)) w)
        = (header w)(''Content-Type'' \<mapsto> ''application/json; charset=utf-8'',
          ''Access-Control-Allow-Origin'' \<mapsto> ''*'', ''Content-Type'' \<mapsto> ''application/x-protobuf'')"
      using rp proto by (simp add: header_setHeaders)
    ultimately show ?thesis
      using ev by (simp add: header_setHeaders)
  qed
qed

theorem handle_headers_witness:
  "take 2 (events (handle hello_env [[]] hello_handler hello_request [(''name'', ''Alice'')]
       hello_heap))
     = [HeaderSet ''Content-Type'' ''application/json; charset=utf-8'',
        HeaderSet ''Access-Control-Allow-Origin'' ''*'']
   \<and> header (replay (events (handle hello_env [[]] hello_handler hello_request
         [(''name'', ''Alice'')] hello_heap)) fresh) ''Access-Control-Allow-Origin'' = Some ''*''"
proof -
  note T = handle_headers [of hello_env "[[]]" hello_handler hello_request
      "[(''name'', ''Alice'')]" hello_heap fresh]
  from T obtain rest where
    "events (handle hello_env [[]] hello_handler hello_request [(''name'', ''Alice'')] hello_heap)
       = setHeaders @ rest"
    by blast
  then have a: "take 2 (events (handle hello_env [[]] hello_handler hello_request
      [(''name'', ''Alice'')] hello_heap))
     = [HeaderSet ''Content-Type'' ''application/json; charset=utf-8'',
        HeaderSet ''Access-Control-Allow-Origin'' ''*'']"
    by (simp add: setHeaders_def)
  from T a show ?thesis by blast
qed

section \<open>Writing the result\<close>

text \<open>
  C4. When the middleware chain passes and the handler returns, with no error, a result
  of dynamic type \<open>[]byte\<close> or \<open>string\<close>, the only call on the response after the fixed
  headers is one \<open>Write\<close> of exactly those bytes, so the body grows by exactly them.
  This is so for every request and every encoder: the \<open>Accept\<close> header is not looked
  at, and neither the JSON nor the binary encoder is applied.
\<close>

theorem raw_results_verbatim:
  assumes "runMiddleware (elems A (middleware h)) 0 (Background env) (r\<lparr>Form := ParseForm env r\<rparr>)
             = (evs, ctx, None, r1)"
    and "serve env h ctx \<lparr>Request = r1, PathVar = ps\<rparr> hp = Returned hp' evs' v None"
    and "v = RBytes b \<or> v = RString b"
  shows "writeResult env r' v = [Write b]
       \<and> events (handle env A h r ps hp) = setHeaders @ evs @ evs' @ [Write b]
       \<and> body (replay (events (handle env A h r ps hp)) w) = body w @ b"
proof -
  have wr: "\<And>q. writeResult env q v = [Write b]"
    using assms(3) by (auto simp: writeResult_def)
  have ev: "events (handle env A h r ps hp) = setHeaders @ evs @ evs' @ [Write b]"
    using assms(1,2) wr [of r1] by (simp add: handle_def)
  have c: "\<forall>e \<in> set (evs @ evs'). isMiddleware e \<or> isVerb e"
    using middleware_calls [OF assms(1)] serve_calls [OF assms(2)] by auto
  have "body (replay (setHeaders @ (evs @ evs') @ [Write b]) w) = body w @ b"
    using replay_calls [OF c] by (simp add: header_setHeaders)
  then have "body (replay (events (handle env A h r ps hp)) w) = body w @ b"
    using ev by simp
  with wr ev show ?thesis by blast
qed

theorem raw_results_verbatim_witness:
  "runMiddleware (elems [[]] (middleware hello_handler)) 0 (Background hello_env)
       (hello_request\<lparr>Form := ParseForm hello_env hello_request\<rparr>)
     = ([], [], None, hello_request)
   \<and> serve hello_env hello_handler [] \<lparr>Request = hello_request, PathVar = [(''name'', ''Alice'')]\<rparr>
         hello_heap
     = Returned (store (snd (reflect_New (TStruct []) hello_heap)) 1 (Struct ''Alice''))
         [Verb GET []] (RString ''Hello Alice'') None
   \<and> events (handle hello_env [[]] hello_handler hello_request [(''name'', ''Alice'')] hello_heap)
     = setHeaders @ [] @ [Verb GET []] @ [Write ''Hello Alice'']
   \<and> body (replay (events (handle hello_env [[]] hello_handler hello_request
        [(''name'', ''Alice'')] hello_heap)) fresh) = ''Hello Alice''"
proof -
  have a: "runMiddleware (elems [[]] (middleware hello_handler)) 0 (Background hello_env)
       (hello_request\<lparr>Form := ParseForm hello_env hello_request\<rparr>)
     = ([], [], None, hello_request)"
    by (simp add: elems_def hello_handler_def no_middleware_def hello_env_def hello_request_def)
  have b: "serve hello_env hello_handler [] \<lparr>Request = hello_request, PathVar = [(''name'', ''Alice'')]\<rparr>
         hello_heap
     = Returned (store (snd (reflect_New (TStruct []) hello_heap)) 1 (Struct ''Alice''))
         [Verb GET []] (RString ''Hello Alice'') None"
    by (simp add: serve_def hello_handler_def HelloReq_def newInstance_def reflect_New_def
        hello_heap_def store_def bind_def hello_env_def bindName_def dispatch_def
        hello_request_def call_def asGetter_def)
  have c: "RString ''Hello Alice'' = RBytes ''Hello Alice'' \<or> RString ''Hello Alice'' = (RString ''Hello Alice'' :: string reply)"
    by simp
  note T = raw_results_verbatim [OF a b c, of hello_request fresh]
  have d: "body fresh = []" by (simp add: fresh_def)
  from T have "body (replay (events (handle hello_env [[]] hello_handler hello_request
        [(''name'', ''Alice'')] hello_heap)) fresh) = body fresh @ ''Hello Alice''"
    by blast
  then have e: "body (replay (events (handle hello_env [[]] hello_handler hello_request
        [(''name'', ''Alice'')] hello_heap)) fresh) = ''Hello Alice''"
    by (simp only: d append_Nil)
  from T a b e show ?thesis by blast
qed

section \<open>The middleware chain\<close>

lemma stateAt_0 [simp]: "stateAt fs s 0 = s"
  by (simp add: stateAt_def)

lemma stateAt_Cons_Suc [simp]: "stateAt (f # fs) s (Suc j) = stateAt fs (step f s) j"
  by (simp add: stateAt_def)

lemma runMiddleware_fail:
  assumes "k < length fs"
    and "\<forall>j<k. failure (fs ! j) (stateAt fs (c, r) j) = None"
    and "failure (fs ! k) (stateAt fs (c, r) k) = Some e"
  shows "runMiddleware fs i c r =
           (map (\<lambda>j. Middleware (i + j) (fst (stateAt fs (c, r) j))) [0..<Suc k],
            fst (stateAt fs (c, r) (Suc k)), Some e, snd (stateAt fs (c, r) (Suc k)))"
  using assms
proof (induction fs arbitrary: i c r k)
  case Nil
  then show ?case by simp
next
  case (Cons f fs)
  obtain c' err r' where f: "f c r = ((c', err), r')"
    by (metis prod.exhaust)
  then have st: "step f (c, r) = (c', r')" and fl: "failure f (c, r) = err"
    by (simp_all add: step_def failure_def)
  show ?case
  proof (cases k)
    case 0
    with Cons.prems(3) fl have "err = Some e" by simp
    with f st 0 show ?thesis by simp
  next
    case (Suc k')
    from Cons.prems(2) Suc fl have none: "err = None"
      by (metis stateAt_0 nth_Cons_0 zero_less_Suc)
    have a: "k' < length fs" using Cons.prems(1) Suc by simp
    have b: "\<forall>j<k'. failure (fs ! j) (stateAt fs (c', r') j) = None"
    proof (intro allI impI)
      fix j assume "j < k'"
      then have "Suc j < k" using Suc by simp
      with Cons.prems(2) have "failure ((f # fs) ! Suc j) (stateAt (f # fs) (c, r) (Suc j)) = None"
        by blast
      then show "failure (fs ! j) (stateAt fs (c', r') j) = None"
        by (simp add: st)
    qed
    have d: "failure (fs ! k') (stateAt fs (c', r') k') = Some e"
      using Cons.prems(3) Suc by (simp add: st)
    note IH = Cons.IH [OF a b d, of "Suc i"]
    have "map (\<lambda>j. Middleware (i + j) (fst (stateAt (f # fs) (c, r) j))) [0..<Suc (Suc k')]
        = Middleware i c # map (\<lambda>j. Middleware (Suc i + j) (fst (stateAt fs (c', r') j))) [0..<Suc k']"
      by (simp add: map_upt_Suc st del: upt_Suc)
    with IH f none Suc show ?thesis
      by (simp add: st del: upt_Suc)
  qed
qed

lemma runMiddleware_pass:
  assumes "\<forall>j<length fs. failure (fs ! j) (stateAt fs (c, r) j) = None"
  shows "runMiddleware fs i c r =
           (map (\<lambda>j. Middleware (i + j) (fst (stateAt fs (c, r) j))) [0..<length fs],
            fst (stateAt fs (c, r) (length fs)), None, snd (stateAt fs (c, r) (length fs)))"
  using assms
proof (induction fs arbitrary: i c r)
  case Nil
  then show ?case by simp
next
  case (Cons f fs)
  obtain c' err r' where f: "f c r = ((c', err), r')"
    by (metis prod.exhaust)
  then have st: "step f (c, r) = (c', r')" and fl: "failure f (c, r) = err"
    by (simp_all add: step_def failure_def)
  from Cons.prems fl have none: "err = None"
    by (metis stateAt_0 nth_Cons_0 length_Cons zero_less_Suc)
  have b: "\<forall>j<length fs. failure (fs ! j) (stateAt fs (c', r') j) = None"
  proof (intro allI impI)
    fix j assume "j < length fs"
    then have "Suc j < length (f # fs)" by simp
    with Cons.prems have "failure ((f # fs) ! Suc j) (stateAt (f # fs) (c, r) (Suc j)) = None"
      by blast
    then show "failure (fs ! j) (stateAt fs (c', r') j) = None"
      by (simp add: st)
  qed
  note IH = Cons.IH [OF b, of "Suc i"]
  have "map (\<lambda>j. Middleware (i + j) (fst (stateAt (f # fs) (c, r) j))) [0..<length (f # fs)]
      = Middleware i c # map (\<lambda>j. Middleware (Suc i + j) (fst (stateAt fs (c', r') j))) [0..<length fs]"
    by (simp add: map_upt_Suc st del: upt_Suc)
  with IH f none show ?case
    by (simp add: st del: upt_Suc)
qed

lemma called_events:
  "e \<in> set (called fs s n) \<Longrightarrow> \<exists>j<n. e = Middleware j (fst (stateAt fs s j))"
  by (auto simp: called_def)

lemma runMiddleware_called_fail:
  assumes "k < length fs"
    and "\<forall>j<k. failure (fs ! j) (stateAt fs (c, r) j) = None"
    and "failure (fs ! k) (stateAt fs (c, r) k) = Some e"
  shows "runMiddleware fs 0 c r =
           (called fs (c, r) (Suc k), fst (stateAt fs (c, r) (Suc k)), Some e,
            snd (stateAt fs (c, r) (Suc k)))"
  using runMiddleware_fail [OF assms, of 0] by (simp add: called_def)

lemma runMiddleware_called_pass:
  assumes "\<forall>j<length fs. failure (fs ! j) (stateAt fs (c, r) j) = None"
  shows "runMiddleware fs 0 c r =
           (called fs (c, r) (length fs), fst (stateAt fs (c, r) (length fs)), None,
            snd (stateAt fs (c, r) (length fs)))"
  using runMiddleware_pass [OF assms, of 0] by (simp add: called_def)

text \<open>
  C2. The functions of the chain are called in the order of their indices, starting with
  the background context and the request, each with the context and the request that the
  previous one returned (\<open>stateAt\<close>). If the function at index \<open>k\<close> is the first to
  return an error, the calls of the request are the fixed headers, the calls of the
  functions 0 to \<open>k\<close>, and the error response for that error: no function of a later
  index is called, no method of the handler is called, and the memory is untouched. If no
  function returns an error, all of them are called in order, no function is called
  again afterwards, and a handler method that is called receives the context returned
  by the last one.
\<close>

theorem middleware_chain:
  "(k < length (chainOf A h)
      \<and> (\<forall>j<k. failure (chainOf A h ! j) (stateAt (chainOf A h) (start env r) j) = None)
      \<and> failure (chainOf A h ! k) (stateAt (chainOf A h) (start env r) k) = Some e
    \<longrightarrow> events (handle env A h r ps hp)
          = setHeaders @ called (chainOf A h) (start env r) (Suc k) @ serveError env e
        \<and> (\<forall>j c. k < j \<longrightarrow> Middleware j c \<notin> set (events (handle env A h r ps hp)))
        \<and> (\<forall>v c. Verb v c \<notin> set (events (handle env A h r ps hp)))
        \<and> memory (handle env A h r ps hp) = hp)
   \<and> ((\<forall>j<length (chainOf A h).
          failure (chainOf A h ! j) (stateAt (chainOf A h) (start env r) j) = None)
    \<longrightarrow> (\<exists>rest. events (handle env A h r ps hp)
            = setHeaders @ called (chainOf A h) (start env r) (length (chainOf A h)) @ rest
          \<and> (\<forall>e \<in> set rest. \<not> isMiddleware e)
          \<and> (\<forall>v c. Verb v c \<in> set rest
                \<longrightarrow> c = fst (stateAt (chainOf A h) (start env r) (length (chainOf A h))))))"
proof (intro conjI impI)
  assume a: "k < length (chainOf A h)
      \<and> (\<forall>j<k. failure (chainOf A h ! j) (stateAt (chainOf A h) (start env r) j) = None)
      \<and> failure (chainOf A h ! k) (stateAt (chainOf A h) (start env r) k) = Some e"
  let ?fs = "chainOf A h"
  let ?s = "(Background env, r\<lparr>Form := ParseForm env r\<rparr>)"
  have s: "start env r = ?s" by (simp add: start_def)
  have rm: "runMiddleware ?fs 0 (Background env) (r\<lparr>Form := ParseForm env r\<rparr>)
      = (called ?fs ?s (Suc k), fst (stateAt ?fs ?s (Suc k)), Some e, snd (stateAt ?fs ?s (Suc k)))"
    using a runMiddleware_called_fail [of k ?fs "Background env" "r\<lparr>Form := ParseForm env r\<rparr>" e]
    by (simp add: s)
  then have h: "handle env A h r ps hp
      = \<lparr>events = setHeaders @ called ?fs ?s (Suc k) @ serveError env e, memory = hp,
         req = snd (stateAt ?fs ?s (Suc k)), panicked = None\<rparr>"
    by (simp add: handle_def chainOf_def)
  then show ev: "events (handle env A h r ps hp)
      = setHeaders @ called ?fs (start env r) (Suc k) @ serveError env e"
    by (simp add: s)
  obtain code j where se: "serveError env e = [WriteHeader code, Write j]"
    using serveError_shape by blast
  show "\<forall>j c. k < j \<longrightarrow> Middleware j c \<notin> set (events (handle env A h r ps hp))"
    using ev se by (auto simp: setHeaders_def dest: called_events)
  show "\<forall>v c. Verb v c \<notin> set (events (handle env A h r ps hp))"
    using ev se by (auto simp: setHeaders_def dest: called_events)
  show "memory (handle env A h r ps hp) = hp"
    using h by simp
next
  assume a: "\<forall>j<length (chainOf A h).
          failure (chainOf A h ! j) (stateAt (chainOf A h) (start env r) j) = None"
  let ?fs = "chainOf A h"
  let ?s = "(Background env, r\<lparr>Form := ParseForm env r\<rparr>)"
  let ?n = "length ?fs"
  let ?ctx = "fst (stateAt ?fs ?s ?n)"
  let ?r1 = "snd (stateAt ?fs ?s ?n)"
  have s: "start env r = ?s" by (simp add: start_def)
  have rm: "runMiddleware (elems A (middleware h)) 0 (Background env) (r\<lparr>Form := ParseForm env r\<rparr>)
      = (called ?fs ?s ?n, ?ctx, None, ?r1)"
    using a runMiddleware_called_pass [of ?fs "Background env" "r\<lparr>Form := ParseForm env r\<rparr>"]
    by (simp add: s chainOf_def)
  show "\<exists>rest. events (handle env A h r ps hp)
            = setHeaders @ called ?fs (start env r) ?n @ rest
          \<and> (\<forall>e \<in> set rest. \<not> isMiddleware e)
          \<and> (\<forall>v c. Verb v c \<in> set rest \<longrightarrow> c = fst (stateAt ?fs (start env r) ?n))"
  proof (cases "serve env h ?ctx \<lparr>Request = ?r1, PathVar = ps\<rparr> hp")
    case (Panic msg hp')
    with rm have "events (handle env A h r ps hp) = setHeaders @ called ?fs ?s ?n @ []"
      by (simp add: handle_def)
    then show ?thesis
      by (simp add: s)
  next
    case (Returned hp' evs' v err)
    note sv = serve_events [OF Returned]
    obtain tail where tl: "events (handle env A h r ps hp) = setHeaders @ called ?fs ?s ?n @ evs' @ tail"
      and shape: "(\<exists>b. tail = [Write b]) \<or> (\<exists>code j. tail = [WriteHeader code, Write j])
          \<or> (\<exists>b. tail = [HeaderSet ''Content-Type'' ''application/x-protobuf'', Write b])"
    proof (cases err)
      case None
      with rm Returned have "events (handle env A h r ps hp)
          = setHeaders @ called ?fs ?s ?n @ evs' @ writeResult env ?r1 v"
        by (simp add: handle_def)
      moreover have "(\<exists>b. writeResult env ?r1 v = [Write b])
          \<or> (\<exists>code j. writeResult env ?r1 v = [WriteHeader code, Write j])
          \<or> (\<exists>b. writeResult env ?r1 v = [HeaderSet ''Content-Type'' ''application/x-protobuf'', Write b])"
        using writeResult_cases [of env ?r1 v] serveError_shape [of env] by metis
      ultimately show ?thesis using that by blast
    next
      case (Some e')
      with rm Returned have "events (handle env A h r ps hp)
          = setHeaders @ called ?fs ?s ?n @ evs' @ serveError env e'"
        by (simp add: handle_def)
      then show ?thesis using that serveError_shape [of env e'] by blast
    qed
    have "\<forall>e \<in> set (evs' @ tail). \<not> isMiddleware e"
      using sv shape by auto
    moreover have "\<forall>v c. Verb v c \<in> set (evs' @ tail) \<longrightarrow> c = ?ctx"
      using sv shape by auto
    ultimately show ?thesis
      using tl by (simp add: s)
  qed
qed

theorem middleware_chain_witness:
  "1 < length (chainOf guard_arrays guarded_handler)
   \<and> failure (chainOf guard_arrays guarded_handler ! 0)
         (stateAt (chainOf guard_arrays guarded_handler) (start hello_env hello_request) 0)
       = None
   \<and> failure (chainOf guard_arrays guarded_handler ! 1)
         (stateAt (chainOf guard_arrays guarded_handler) (start hello_env hello_request) 1)
       = Some (NewStatusError ''forbidden'' 403)
   \<and> events (handle hello_env guard_arrays guarded_handler hello_request alice hello_heap)
     = [HeaderSet ''Content-Type'' ''application/json; charset=utf-8'',
        HeaderSet ''Access-Control-Allow-Origin'' ''*'',
        Middleware 0 [], Middleware 1 [''A''], WriteHeader 403,
        Write (jsonText hello_env (StatusError_json \<lparr>Err = ''forbidden'', StatusCode = 403\<rparr>))]
   \<and> length (chainOf pass_arrays tagged_handler) = 2
   \<and> failure (chainOf pass_arrays tagged_handler ! 0)
         (stateAt (chainOf pass_arrays tagged_handler) (start hello_env hello_request) 0) = None
   \<and> failure (chainOf pass_arrays tagged_handler ! 1)
         (stateAt (chainOf pass_arrays tagged_handler) (start hello_env hello_request) 1) = None
   \<and> take 4 (events (handle hello_env pass_arrays tagged_handler hello_request alice hello_heap))
     = [HeaderSet ''Content-Type'' ''application/json; charset=utf-8'',
        HeaderSet ''Access-Control-Allow-Origin'' ''*'',
        Middleware 0 [], Middleware 1 [''A'']]"
proof -
  have ch: "chainOf guard_arrays guarded_handler = [tagA, deny, tagB]"
    by (simp add: chainOf_def guard_arrays_def guarded_handler_def elems_def)
  have st: "start hello_env hello_request = ([], hello_request)"
    by (simp add: start_def hello_env_def hello_request_def)
  have h1: "1 < length (chainOf guard_arrays guarded_handler)"
    by (simp add: ch)
  have h0: "failure (chainOf guard_arrays guarded_handler ! 0)
         (stateAt (chainOf guard_arrays guarded_handler) (start hello_env hello_request) 0)
       = None"
    by (simp add: ch st failure_def tagA_def)
  then have h2: "\<forall>j<1. failure (chainOf guard_arrays guarded_handler ! j)
                 (stateAt (chainOf guard_arrays guarded_handler) (start hello_env hello_request) j)
               = None"
    by simp
  have h3: "failure (chainOf guard_arrays guarded_handler ! 1)
         (stateAt (chainOf guard_arrays guarded_handler) (start hello_env hello_request) 1)
       = Some (NewStatusError ''forbidden'' 403)"
    by (simp add: ch st failure_def stateAt_def step_def tagA_def deny_def)
  have cl: "called (chainOf guard_arrays guarded_handler) (start hello_env hello_request) (Suc 1)
      = [Middleware 0 [], Middleware 1 [''A'']]"
    by (simp add: ch st called_def stateAt_def step_def tagA_def)
  have se: "serveError hello_env (NewStatusError ''forbidden'' 403)
      = [WriteHeader 403,
         Write (jsonText hello_env (StatusError_json \<lparr>Err = ''forbidden'', StatusCode = 403\<rparr>))]"
    by (simp add: serveError_def NewStatusError_def)
  from middleware_chain [of 1 guard_arrays guarded_handler hello_env hello_request
      "NewStatusError ''forbidden'' 403" alice hello_heap, THEN conjunct1] h1 h2 h3
  have "events (handle hello_env guard_arrays guarded_handler hello_request alice hello_heap)
      = setHeaders @ called (chainOf guard_arrays guarded_handler)
          (start hello_env hello_request) (Suc 1)
        @ serveError hello_env (NewStatusError ''forbidden'' 403)"
    by blast
  then have a: "events (handle hello_env guard_arrays guarded_handler hello_request alice hello_heap)
     = [HeaderSet ''Content-Type'' ''application/json; charset=utf-8'',
        HeaderSet ''Access-Control-Allow-Origin'' ''*'',
        Middleware 0 [], Middleware 1 [''A''], WriteHeader 403,
        Write (jsonText hello_env (StatusError_json \<lparr>Err = ''forbidden'', StatusCode = 403\<rparr>))]"
    by (simp only: cl se) (simp add: setHeaders_def)
  have ch2: "chainOf pass_arrays tagged_handler = [tagA, tagB]"
    by (simp add: chainOf_def pass_arrays_def tagged_handler_def elems_def)
  have l2: "length (chainOf pass_arrays tagged_handler) = 2"
    by (simp add: ch2)
  have q0: "failure (chainOf pass_arrays tagged_handler ! 0)
         (stateAt (chainOf pass_arrays tagged_handler) (start hello_env hello_request) 0) = None"
    by (simp add: ch2 st failure_def tagA_def)
  have q1: "failure (chainOf pass_arrays tagged_handler ! 1)
         (stateAt (chainOf pass_arrays tagged_handler) (start hello_env hello_request) 1) = None"
    by (simp add: ch2 st failure_def stateAt_def step_def tagA_def tagB_def)
  have p1: "\<forall>j<length (chainOf pass_arrays tagged_handler).
         failure (chainOf pass_arrays tagged_handler ! j)
           (stateAt (chainOf pass_arrays tagged_handler) (start hello_env hello_request) j) = None"
  proof (intro allI impI)
    fix j
    assume "j < length (chainOf pass_arrays tagged_handler)"
    then have "j = 0 \<or> j = 1"
      using l2 by auto
    then show "failure (chainOf pass_arrays tagged_handler ! j)
        (stateAt (chainOf pass_arrays tagged_handler) (start hello_env hello_request) j) = None"
      using q0 q1 by auto
  qed
  have cl2: "called (chainOf pass_arrays tagged_handler) (start hello_env hello_request)
        (length (chainOf pass_arrays tagged_handler))
      = [Middleware 0 [], Middleware 1 [''A'']]"
    by (simp add: ch2 st called_def stateAt_def step_def tagA_def)
  from middleware_chain [of _ pass_arrays tagged_handler hello_env hello_request
      _ alice hello_heap, THEN conjunct2] p1
  obtain rest where
    "events (handle hello_env pass_arrays tagged_handler hello_request alice hello_heap)
       = setHeaders @ called (chainOf pass_arrays tagged_handler) (start hello_env hello_request)
           (length (chainOf pass_arrays tagged_handler)) @ rest"
    by blast
  then have b: "take 4 (events (handle hello_env pass_arrays tagged_handler hello_request alice
        hello_heap))
     = [HeaderSet ''Content-Type'' ''application/json; charset=utf-8'',
        HeaderSet ''Access-Control-Allow-Origin'' ''*'',
        Middleware 0 [], Middleware 1 [''A'']]"
    by (simp only: cl2) (simp add: setHeaders_def)
  from h1 h0 h3 a l2 q0 q1 b show ?thesis by blast
qed

section \<open>Content negotiation\<close>

lemma HasPrefix_iff: "HasPrefix s p \<longleftrightarrow> (\<exists>t. s = p @ t)"
  by (induction s p rule: HasPrefix.induct) auto

lemma Contains_iff: "Contains s sub \<longleftrightarrow> (\<exists>pre post. s = pre @ sub @ post)"
proof (induction s)
  case Nil
  then show ?case by auto
next
  case (Cons c s)
  show ?case
  proof
    assume "Contains (c # s) sub"
    then consider "HasPrefix (c # s) sub" | "Contains s sub" by auto
    then show "\<exists>pre post. c # s = pre @ sub @ post"
    proof cases
      case 1
      then obtain t where "c # s = sub @ t" using HasPrefix_iff by blast
      then have "c # s = [] @ sub @ t" by simp
      then show ?thesis by blast
    next
      case 2
      with Cons obtain pre post where "s = pre @ sub @ post" by blast
      then have "c # s = (c # pre) @ sub @ post" by simp
      then show ?thesis by blast
    qed
  next
    assume "\<exists>pre post. c # s = pre @ sub @ post"
    then obtain pre post where e: "c # s = pre @ sub @ post" by blast
    show "Contains (c # s) sub"
    proof (cases pre)
      case Nil
      with e have "HasPrefix (c # s) sub" using HasPrefix_iff by auto
      then show ?thesis by simp
    next
      case (Cons a pre')
      with e have "s = pre' @ sub @ post" by simp
      with Cons.IH have "Contains s sub" by blast
      then show ?thesis by simp
    qed
  qed
qed







section \<open>Dispatch on the request method\<close>

lemma Contains_infix: "Contains (pre @ sub @ post) sub"
  using Contains_iff by blast

lemma capability_pointer:
  "capability (IPtr t p) m = capability (IPtr t q) m"
  by (simp add: capability_def asGetter_def asPoster_def asPutter_def asDeleter_def)

lemma dispatch_unsupported:
  "capability v (Method r) = None \<Longrightarrow> dispatch v recv ctx r = ([], RNil, Some (unsupported r))"
  by (simp add: capability_def dispatch_def call_def split: if_splits)

text \<open>
  C8, as the code has it. When the instance does not have the capability that matches
  the request method (no capability matches a method outside GET, POST, PUT, DELETE),
  and the request reaches the dispatch, that is, the prototype is not a pointer, or it
  is one and the binding returned no error, \<open>serve\<close> calls no method and returns the nil
  result with the error whose message is the method, the words
  \<open>unsupported method for\<close> and the request URI; \<open>serveError\<close> answers it with status
  400 and that message.
\<close>

theorem unsupported_method:
  assumes "capability (impl h) (Method (Request ps)) = None"
  shows "(impl h = IVal t x
            \<longrightarrow> serve env h ctx ps hp = Returned hp [] RNil (Some (unsupported (Request ps))))
       \<and> (impl h = IPtr t p
            \<and> bind env (shape t) ps (fst (newInstance (shape t) p hp))
                 (snd (newInstance (shape t) p hp)) = Inr (hp2, None)
            \<longrightarrow> serve env h ctx ps hp = Returned hp2 [] RNil (Some (unsupported (Request ps))))
       \<and> Error (unsupported (Request ps))
           = Method (Request ps) @ '' unsupported method for '' @ RequestURI (Request ps)
       \<and> Contains (Error (unsupported (Request ps))) (Method (Request ps))
       \<and> Contains (Error (unsupported (Request ps))) (RequestURI (Request ps))
       \<and> serveError env (unsupported (Request ps))
           = [WriteHeader 400,
              Write (jsonText env
                (JObject [(''message'', JString (Error (unsupported (Request ps)))),
                          (''statusCode'', JNumber 400)]))]"
proof -
  let ?r = "Request ps"
  have v: "impl h = IVal t x
      \<longrightarrow> serve env h ctx ps hp = Returned hp [] RNil (Some (unsupported ?r))"
  proof
    assume i: "impl h = IVal t x"
    with assms have "dispatch (IVal t x) x ctx ?r = ([], RNil, Some (unsupported ?r))"
      using dispatch_unsupported by metis
    with i show "serve env h ctx ps hp = Returned hp [] RNil (Some (unsupported ?r))"
      by (simp add: serve_def)
  qed
  have p: "impl h = IPtr t p
        \<and> bind env (shape t) ps (fst (newInstance (shape t) p hp))
             (snd (newInstance (shape t) p hp)) = Inr (hp2, None)
      \<longrightarrow> serve env h ctx ps hp = Returned hp2 [] RNil (Some (unsupported ?r))"
  proof
    assume a: "impl h = IPtr t p
        \<and> bind env (shape t) ps (fst (newInstance (shape t) p hp))
             (snd (newInstance (shape t) p hp)) = Inr (hp2, None)"
    let ?a = "fst (newInstance (shape t) p hp)"
    from a assms have "capability (IPtr t (Some ?a)) (Method ?r) = None"
      using capability_pointer by metis
    then have "dispatch (IPtr t (Some ?a)) (cell hp2 ?a) ctx ?r = ([], RNil, Some (unsupported ?r))"
      by (rule dispatch_unsupported)
    with a show "serve env h ctx ps hp = Returned hp2 [] RNil (Some (unsupported ?r))"
      by (simp add: serve_def case_prod_beta)
  qed
  have m: "Error (unsupported ?r) = Method ?r @ '' unsupported method for '' @ RequestURI ?r"
    by (simp add: unsupported_def)
  have c1: "Contains (Error (unsupported ?r)) (Method ?r)"
    using Contains_infix [of "[]" "Method ?r" "'' unsupported method for '' @ RequestURI ?r"]
    by (simp add: unsupported_def)
  have c2: "Contains (Error (unsupported ?r)) (RequestURI ?r)"
    using Contains_infix [of "Method ?r @ '' unsupported method for ''" "RequestURI ?r" "[]"]
    by (simp add: unsupported_def)
  have s: "serveError env (unsupported ?r)
      = [WriteHeader 400,
         Write (jsonText env (JObject [(''message'', JString (Error (unsupported ?r))),
                                       (''statusCode'', JNumber 400)]))]"
    by (simp add: serveError_def unsupported_def NewStatusError_def StatusBadRequest_def
        StatusError_json_def)
  from v p m c1 c2 s show ?thesis by blast
qed

theorem unsupported_method_witness:
  "capability (impl value_handler) (Method (Request \<lparr>Request = post_request, PathVar = alice\<rparr>))
     = None
   \<and> serve hello_env value_handler [] \<lparr>Request = post_request, PathVar = alice\<rparr> hello_heap
     = Returned hello_heap [] RNil (Some (Plain ''POST unsupported method for /Alice''))
   \<and> capability (impl hello_handler) (Method (Request \<lparr>Request = post_request, PathVar = alice\<rparr>))
     = None
   \<and> bind hello_env (shape HelloReq) \<lparr>Request = post_request, PathVar = alice\<rparr>
        (fst (newInstance (shape HelloReq) (Some 0) hello_heap))
        (snd (newInstance (shape HelloReq) (Some 0) hello_heap))
     = Inr (store (snd (reflect_New (TStruct []) hello_heap)) 1 (Struct ''Alice''), None)
   \<and> serve hello_env hello_handler [] \<lparr>Request = post_request, PathVar = alice\<rparr> hello_heap
     = Returned (store (snd (reflect_New (TStruct []) hello_heap)) 1 (Struct ''Alice'')) [] RNil
         (Some (Plain ''POST unsupported method for /Alice''))"
proof -
  let ?ps = "\<lparr>Request = post_request, PathVar = alice\<rparr>"
  have u: "unsupported (Request ?ps) = Plain ''POST unsupported method for /Alice''"
    by (simp add: unsupported_def post_request_def hello_request_def)
  have c1: "capability (impl value_handler) (Method (Request ?ps)) = None"
    by (simp add: capability_def value_handler_def post_request_def hello_request_def
        asPoster_def HelloReq_def)
  have i1: "impl value_handler = IVal HelloReq (Struct ''Bob'')"
    by (simp add: value_handler_def)
  from unsupported_method [OF c1, of HelloReq "Struct ''Bob''" hello_env "[]" hello_heap] i1
  have "serve hello_env value_handler [] ?ps hello_heap
      = Returned hello_heap [] RNil (Some (unsupported (Request ?ps)))"
    by blast
  then have s1: "serve hello_env value_handler [] ?ps hello_heap
      = Returned hello_heap [] RNil (Some (Plain ''POST unsupported method for /Alice''))"
    by (simp only: u)
  have c2: "capability (impl hello_handler) (Method (Request ?ps)) = None"
    by (simp add: capability_def hello_handler_def post_request_def hello_request_def
        asPoster_def HelloReq_def)
  have i2: "impl hello_handler = IPtr HelloReq (Some 0)"
    by (simp add: hello_handler_def)
  have b: "bind hello_env (shape HelloReq) ?ps
        (fst (newInstance (shape HelloReq) (Some 0) hello_heap))
        (snd (newInstance (shape HelloReq) (Some 0) hello_heap))
     = Inr (store (snd (reflect_New (TStruct []) hello_heap)) 1 (Struct ''Alice''), None)"
    by (simp add: bind_def HelloReq_def newInstance_def reflect_New_def hello_heap_def store_def
        hello_env_def bindName_def alice_def)
  from unsupported_method [OF c2, where t = HelloReq and p = "Some 0" and env = hello_env
      and hp = hello_heap and ctx = "[]"
      and ?hp2.0 = "store (snd (reflect_New (TStruct []) hello_heap)) 1 (Struct ''Alice'')"]
    i2 b
  have "serve hello_env hello_handler [] ?ps hello_heap
      = Returned (store (snd (reflect_New (TStruct []) hello_heap)) 1 (Struct ''Alice'')) [] RNil
          (Some (unsupported (Request ?ps)))"
    by blast
  then have s2: "serve hello_env hello_handler [] ?ps hello_heap
      = Returned (store (snd (reflect_New (TStruct []) hello_heap)) 1 (Struct ''Alice'')) [] RNil
          (Some (Plain ''POST unsupported method for /Alice''))"
    by (simp only: u)
  from c1 s1 c2 b s2 show ?thesis by blast
qed

text \<open>
  C8, as stated, fails where the binding fails first: the prototype has no \<open>Post\<close>, the
  request is a POST, and \<open>serve\<close> returns the error of the binder, not the
  unsupported-method error.
\<close>

theorem binding_precedes_dispatch_counterexample:
  "capability (impl hello_handler) (Method post_request) = None
   \<and> serve hello_env hello_handler [] \<lparr>Request = post_request, PathVar = []\<rparr> hello_heap
     = Returned (store (snd (reflect_New (TStruct []) hello_heap)) 1 (Struct [])) [] RNil
         (Some (Plain ''missing name''))
   \<and> events (handle hello_env [[]] hello_handler post_request [] hello_heap)
     = [HeaderSet ''Content-Type'' ''application/json; charset=utf-8'',
        HeaderSet ''Access-Control-Allow-Origin'' ''*'',
        WriteHeader 400,
        Write (jsonText hello_env
                 (StatusError_json \<lparr>Err = ''missing name'', StatusCode = 400\<rparr>))]
   \<and> unsupported post_request = Plain ''POST unsupported method for /Alice''"
proof -
  have c: "capability (impl hello_handler) (Method post_request) = None"
    by (simp add: capability_def hello_handler_def post_request_def hello_request_def
        asPoster_def HelloReq_def)
  have s: "serve hello_env hello_handler [] \<lparr>Request = post_request, PathVar = []\<rparr> hello_heap
     = Returned (store (snd (reflect_New (TStruct []) hello_heap)) 1 (Struct [])) [] RNil
         (Some (Plain ''missing name''))"
    by (simp add: serve_def hello_handler_def HelloReq_def newInstance_def reflect_New_def
        hello_heap_def store_def bind_def hello_env_def bindName_def)
  have e: "events (handle hello_env [[]] hello_handler post_request [] hello_heap)
     = [HeaderSet ''Content-Type'' ''application/json; charset=utf-8'',
        HeaderSet ''Access-Control-Allow-Origin'' ''*'',
        WriteHeader 400,
        Write (jsonText hello_env
                 (StatusError_json \<lparr>Err = ''missing name'', StatusCode = 400\<rparr>))]"
    by code_simp
  have u: "unsupported post_request = Plain ''POST unsupported method for /Alice''"
    by (simp add: unsupported_def post_request_def hello_request_def)
  from c s e u show ?thesis by blast
qed

section \<open>The instance of a request\<close>









section \<open>The retry for slices\<close>

text \<open>
  The retry runs the binder on the pointer to the slice a second time; the variable
  \<open>z\<close>, allocated for the single element, is never given to the binder. So whenever
  the retry succeeds, the first element of the slice is the zero value of the element
  type, whatever the binder did.
\<close>

lemma retry_first_element_zero:
  assumes "retry env et ps a hp = Inr (hp2, None)" and "a < nextAddr hp"
  shows "\<exists>es. cell hp2 a = Slice (Zero et # es)"
proof -
  let ?hp2 = "store hp a (MakeSlice et 1)"
  let ?z = "nextAddr hp"
  let ?hp3 = "snd (reflect_New et ?hp2)"
  have rn: "fst (reflect_New et ?hp2) = ?z"
    by (simp add: reflect_New_def store_def)
  obtain y e2 where u2: "Unmarshal env ps (cell ?hp3 a) = (y, e2)"
    by (metis prod.exhaust)
  have z: "cell (store ?hp3 a y) ?z = Zero et"
    using assms(2) by (simp add: reflect_New_def store_def)
  show ?thesis
  proof (cases e2)
    case (Some err2)
    then have "retry env et ps a hp = Inr (store ?hp3 a y, Some err2)"
      using rn u2 by (simp add: retry_def case_prod_beta Let_def)
    with assms(1) show ?thesis by simp
  next
    case None
    then have "retry env et ps a hp = setFirst (store ?hp3 a y) a ?z"
      using rn u2 by (simp add: retry_def case_prod_beta Let_def)
    with assms(1) have "setFirst (store ?hp3 a y) a ?z = Inr (hp2, None)" by simp
    then show ?thesis
      using z by (auto simp: setFirst_def store_def split: obj.splits list.splits)
  qed
qed

text \<open>
  When the shape is not a slice, the error of the binder is what \<open>serve\<close> returns.
\<close>

lemma bind_error_not_slice:
  assumes "Kind t \<noteq> KSlice" and "Unmarshal env ps (cell hp a) = (x, Some err)"
  shows "bind env t ps a hp = Inr (store hp a x, Some err)"
  using assms by (simp add: bind_def)

lemma serve_binding_error:
  assumes "impl h = IPtr t p" and "Kind (shape t) \<noteq> KSlice"
    and "Unmarshal env ps (cell (snd (newInstance (shape t) p hp))
           (fst (newInstance (shape t) p hp))) = (x, Some err)"
  shows "\<exists>hp'. serve env h ctx ps hp = Returned hp' [] RNil (Some err)"
  using assms bind_error_not_slice [OF assms(2,3)]
  by (simp add: serve_def case_prod_beta)

text \<open>
  C6 says that when the binding of a slice fails, a single element is bound and wrapped
  into a one-element slice before the dispatch. The code does not do that. With a binder
  that binds structs only (it binds the single element \<open>Alice\<close> when asked to), the
  retry fails like the first attempt and the request ends with the binding error, the
  slice holding one zero element. With a binder that also fills the element of a
  one-element slice, the retry succeeds and the bound element is then overwritten by the
  zero value: the handler method sees the empty name.
\<close>

theorem slice_retry_failing_input:
  "Unmarshal hello_env \<lparr>Request = hello_request, PathVar = alice\<rparr> (Zero (TStruct []))
     = (Struct ''Alice'', None)
   \<and> events (handle hello_env [[]] items_handler hello_request alice items_heap)
     = [HeaderSet ''Content-Type'' ''application/json; charset=utf-8'',
        HeaderSet ''Access-Control-Allow-Origin'' ''*'',
        WriteHeader 400,
        Write (jsonText hello_env
                 (StatusError_json \<lparr>Err = ''not a pointer to a struct'', StatusCode = 400\<rparr>))]
   \<and> cell (memory (handle hello_env [[]] items_handler hello_request alice items_heap)) 1
     = Slice [Struct []]
   \<and> cell (memory (handle hello_env [[]] items_handler hello_request alice items_heap)) 2
     = Struct []
   \<and> Unmarshal first_env \<lparr>Request = hello_request, PathVar = alice\<rparr> (Slice [Struct []])
     = (Slice [Struct ''Alice''], None)
   \<and> events (handle first_env [[]] items_handler hello_request alice items_heap)
     = [HeaderSet ''Content-Type'' ''application/json; charset=utf-8'',
        HeaderSet ''Access-Control-Allow-Origin'' ''*'',
        Verb GET [],
        Write ''Hello '']
   \<and> cell (memory (handle first_env [[]] items_handler hello_request alice items_heap)) 1
     = Slice [Struct []]"
proof -
  have 1: "Unmarshal hello_env \<lparr>Request = hello_request, PathVar = alice\<rparr> (Zero (TStruct []))
     = (Struct ''Alice'', None)"
    by (simp add: hello_env_def bindName_def alice_def)
  have 2: "events (handle hello_env [[]] items_handler hello_request alice items_heap)
     = [HeaderSet ''Content-Type'' ''application/json; charset=utf-8'',
        HeaderSet ''Access-Control-Allow-Origin'' ''*'',
        WriteHeader 400,
        Write (jsonText hello_env
                 (StatusError_json \<lparr>Err = ''not a pointer to a struct'', StatusCode = 400\<rparr>))]"
    by code_simp
  have 3: "cell (memory (handle hello_env [[]] items_handler hello_request alice items_heap)) 1
     = Slice [Struct []]"
    by code_simp
  have 4: "cell (memory (handle hello_env [[]] items_handler hello_request alice items_heap)) 2
     = Struct []"
    by code_simp
  have 5: "Unmarshal first_env \<lparr>Request = hello_request, PathVar = alice\<rparr> (Slice [Struct []])
     = (Slice [Struct ''Alice''], None)"
    by (simp add: first_env_def bindFirst_def alice_def)
  have 6: "events (handle first_env [[]] items_handler hello_request alice items_heap)
     = [HeaderSet ''Content-Type'' ''application/json; charset=utf-8'',
        HeaderSet ''Access-Control-Allow-Origin'' ''*'',
        Verb GET [],
        Write ''Hello '']"
    by code_simp
  have 7: "cell (memory (handle first_env [[]] items_handler hello_request alice items_heap)) 1
     = Slice [Struct []]"
    by code_simp
  from 1 2 3 4 5 6 7 show ?thesis by blast
qed

section \<open>The chain of a route\<close>

text \<open>
  When the slice of the mux has no spare capacity, as the slice of a call
  \<^verbatim>\<open>New(f1, ..., fn)\<close> with explicit arguments has, \<open>append\<close> in \<open>Handle\<close> never writes
  into an existing array: the chain of the new handler is the middleware of the mux
  followed by that of the route, and the arrays of earlier handlers stay as they are.
\<close>

lemma overwrite_Nil [simp]: "overwrite ys i [] = ys"
  by (simp add: overwrite_def)

lemma go_append_exact:
  assumes "cap s = len s" and "off s + len s \<le> length (A ! arr s)"
  shows "elems (snd (go_append A s xs)) (fst (go_append A s xs)) = elems A s @ xs"
proof (cases xs)
  case Nil
  then show ?thesis
    using assms by (simp add: go_append_def elems_def)
next
  case (Cons x xs')
  have "length (elems A s) = len s"
    using assms(2) by (simp add: elems_def)
  with Cons assms(1) show ?thesis
    by (simp add: go_append_def elems_def)
qed

lemma go_append_keeps:
  assumes "cap s = len s"
  shows "take (length A) (snd (go_append A s xs)) = A"
  using assms by (cases xs) (simp_all add: go_append_def)

lemma Handle_arrays: "snd (Handle A mux path v options) = snd (go_append A (mux_middleware mux) options)"
  by (simp add: Handle_def Let_def case_prod_beta)

lemma Handle_chain_exact_capacity:
  assumes "cap (mux_middleware mux) = len (mux_middleware mux)"
    and "off (mux_middleware mux) + len (mux_middleware mux)
           \<le> length (A ! arr (mux_middleware mux))"
  shows "chainOf (snd (Handle A mux path v options))
           \<lparr>impl = v, middleware = fst (go_append A (mux_middleware mux) options)\<rparr>
         = elems A (mux_middleware mux) @ options"
    and "take (length A) (snd (Handle A mux path v options)) = A"
    and "mux_middleware (fst (Handle A mux path v options)) = mux_middleware mux"
proof -
  show "chainOf (snd (Handle A mux path v options))
           \<lparr>impl = v, middleware = fst (go_append A (mux_middleware mux) options)\<rparr>
         = elems A (mux_middleware mux) @ options"
    using go_append_exact [OF assms, of options] by (simp add: chainOf_def Handle_arrays)
  show "take (length A) (snd (Handle A mux path v options)) = A"
    using go_append_keeps [OF assms(1), of A options] by (simp add: Handle_arrays)
  show "mux_middleware (fst (Handle A mux path v options)) = mux_middleware mux"
    by (simp add: Handle_def Let_def case_prod_beta)
qed

text \<open>
  A mux made by \<^verbatim>\<open>New(g1, ..., gn)\<close> is such a mux, and an array that is never written
  again is read the same from every later store.
\<close>

lemma variadic_exact:
  "cap (fst (variadic A xs)) = len (fst (variadic A xs))"
  "off (fst (variadic A xs)) + len (fst (variadic A xs))
     \<le> length (snd (variadic A xs) ! arr (fst (variadic A xs)))"
  "elems (snd (variadic A xs)) (fst (variadic A xs)) = xs"
  by (simp_all add: variadic_def elems_def)

lemma New_Handle_chain:
  fixes mux :: "('c, 'e, 'r) ServeMux"
  assumes "mux = New (fst (variadic A gs))"
  shows "chainOf (snd (Handle (snd (variadic A gs)) mux path v options))
           \<lparr>impl = v,
              middleware = fst (go_append (snd (variadic A gs)) (mux_middleware mux) options)\<rparr>
         = gs @ options"
proof -
  have m: "mux_middleware mux = fst (variadic A gs)"
    using assms by (simp add: New_def)
  show ?thesis
    using Handle_chain_exact_capacity(1) [of mux "snd (variadic A gs)" path v options]
      variadic_exact [of A gs]
    by (simp add: m)
qed

lemma elems_stable:
  assumes "take (length A) A' = A" and "arr s < length A"
  shows "elems A' s = elems A s"
proof -
  have "A' ! arr s = take (length A) A' ! arr s"
    using assms(2) by simp
  then have "A' ! arr s = A ! arr s"
    using assms(1) by simp
  then show ?thesis
    by (simp add: elems_def)
qed

text \<open>
  C10 says that the chain of every route is the middleware given to \<open>New\<close> followed by
  the middleware given to \<open>Handle\<close> for that route. With a mux made from a slice that
  has spare capacity, \<open>append\<close> writes the middleware of each route into the one
  shared array: after a second registration, the chain of the first route is \<open>tagA\<close>
  followed by \<open>tagC\<close>, the middleware of the second route, and a request to the first
  route runs them.
\<close>

theorem shared_capacity_failing_input:
  "ran (elems shared_arrays (mux_middleware shared_mux)) = [[''A'']]
   \<and> ran (chainOf (snd after_b) handler_b) = [[''A''], [''B'']]
   \<and> ran (chainOf (snd after_c) handler_b) = [[''A''], [''C'']]
   \<and> events (handle hello_env (snd after_c) handler_b hello_request alice hello_heap)
     = [HeaderSet ''Content-Type'' ''application/json; charset=utf-8'',
        HeaderSet ''Access-Control-Allow-Origin'' ''*'',
        Middleware 0 [], Middleware 1 [''A''], Verb GET [''A'', ''C''],
        Write ''Hello Alice'']"
proof -
  have 1: "ran (elems shared_arrays (mux_middleware shared_mux)) = [[''A'']]"
    by code_simp
  have 2: "ran (chainOf (snd after_b) handler_b) = [[''A''], [''B'']]"
    by code_simp
  have 3: "ran (chainOf (snd after_c) handler_b) = [[''A''], [''C'']]"
    by code_simp
  have 4: "events (handle hello_env (snd after_c) handler_b hello_request alice hello_heap)
     = [HeaderSet ''Content-Type'' ''application/json; charset=utf-8'',
        HeaderSet ''Access-Control-Allow-Origin'' ''*'',
        Middleware 0 [], Middleware 1 [''A''], Verb GET [''A'', ''C''],
        Write ''Hello Alice'']"
    by code_simp
  from 1 2 3 4 show ?thesis by blast
qed

end
